theory Spec2Isabelle
  imports Complex_Main "HOL-Library.Signed_Division" "HOL-Library.Sublist"
begin

section \<open>Scout: the data model\<close>

text \<open>
  The embedding follows the Go packages \<open>config\<close>, \<open>monitor\<close> and \<open>notify\<close>.
  Go's \<open>int\<close> is modelled by \<open>int\<close>: the only arithmetic the code does on it
  (\<open>attempt++\<close> below \<open>retries\<close>, \<open>retries - 1\<close> with \<open>retries \<ge> 1\<close>) stays in range.
  A \<open>time.Time\<close> is the number of nanoseconds since a fixed epoch, a \<open>time.Duration\<close>
  a number of nanoseconds.
\<close>

type_synonym Time = int
type_synonym Duration = int

definition Second :: Duration where
  "Second = 1000000000"

definition Hour :: Duration where
  "Hour = 3600 * Second"

subsection \<open>float64 and the values of \<open>interface{}\<close>\<close>

text \<open>
  A \<open>float64\<close> is a finite value (given by the rational it denotes), an infinity or NaN.
  The checkers only compare such values; the comparisons are IEEE 754's.
\<close>

datatype float64 = Finite rat | PosInf | NegInf | NaN

fun f64_eq :: "float64 \<Rightarrow> float64 \<Rightarrow> bool" where
  "f64_eq (Finite a) (Finite b) = (a = b)"
| "f64_eq PosInf PosInf = True"
| "f64_eq NegInf NegInf = True"
| "f64_eq _ _ = False"

fun f64_lt :: "float64 \<Rightarrow> float64 \<Rightarrow> bool" where
  "f64_lt (Finite a) (Finite b) = (a < b)"
| "f64_lt NaN _ = False"
| "f64_lt _ NaN = False"
| "f64_lt PosInf _ = False"
| "f64_lt _ NegInf = False"
| "f64_lt _ _ = True"

definition f64_gt :: "float64 \<Rightarrow> float64 \<Rightarrow> bool" where
  "f64_gt a b = f64_lt b a"

definition f64_le :: "float64 \<Rightarrow> float64 \<Rightarrow> bool" where
  "f64_le a b = (f64_lt a b \<or> f64_eq a b)"

definition f64_ge :: "float64 \<Rightarrow> float64 \<Rightarrow> bool" where
  "f64_ge a b = f64_le b a"

text \<open>
  The expected value of a JSON assertion is an \<open>interface{}\<close>. The YAML decoder and
  \<open>parseJSONValue\<close> put a string, a \<open>float64\<close>, a bool or nil there; the decoder also
  puts an \<open>int\<close> (for \<open>value: 5\<close>), a list or a map.
\<close>

datatype Value =
    VString string
  | VFloat64 float64
  | VBool bool
  | VNil
  | VInt int
  | VList "Value list"
  | VMap "(string \<times> Value) list"

subsection \<open>package config\<close>

record Auth =
  AuthType :: string
  Token :: string
  Username :: string
  Password :: string

record JSONAssertion =
  Path :: string
  Value :: Value
  Operator :: string

text \<open>
  \<open>Service\<close> has the fields of \<open>config.Service\<close> and the two thresholds that the TLS
  and latency checkers read from it, \<open>TLSWarningDays\<close> and \<open>LatencyThreshold\<close>.
\<close>

record Service =
  Name :: string
  URL :: string
  HealthEndpoint :: string
  Method :: string
  ExpectedStatus :: int
  Headers :: "(string \<times> string) list"
  Type :: string
  Auth :: "Auth option"
  JSONAssertions :: "JSONAssertion list"
  TLSWarningDays :: int
  LatencyThreshold :: int

record Config =
  CheckInterval :: string
  Timeout :: string
  RetryAttempts :: int
  Services :: "Service list"

text \<open>
  \<open>Config.AddService\<close>: the loop over \<open>c.Services\<close> returns the error at the first
  service of the same name; otherwise the service is appended. The receiver is a pointer,
  so the model returns the error (if any) together with the configuration afterwards.
\<close>

datatype config_error =
    ServiceExists string \<comment> \<open>\<open>service with name '%s' already exists\<close>\<close>

fun hasName :: "string \<Rightarrow> Service list \<Rightarrow> bool" where
  "hasName n [] = False"
| "hasName n (s # ss) = (if Name s = n then True else hasName n ss)"

definition AddService :: "Config \<Rightarrow> Service \<Rightarrow> config_error option \<times> Config" where
  "AddService c service =
     (if hasName (Name service) (Services c)
      then (Some (ServiceExists (Name service)), c)
      else (None, c\<lparr>Services := Services c @ [service]\<rparr>))"

subsection \<open>package monitor: statuses, errors and results\<close>

type_synonym Status = string

definition StatusHealthy :: Status where
  "StatusHealthy = ''healthy''"

definition StatusUnhealthy :: Status where
  "StatusUnhealthy = ''unhealthy''"

definition StatusUnknown :: Status where
  "StatusUnknown = ''unknown''"

definition StatusChecking :: Status where
  "StatusChecking = ''checking''"

text \<open>
  \<open>gjson.Result\<close> belongs to a library. A result is represented by its \<open>Type\<close> field,
  the JSON type of the leaf (\<open>Null\<close>, \<open>False\<close>, \<open>Number\<close>, \<open>String\<close>, \<open>True\<close>, \<open>JSON\<close>),
  and by what the methods the checker calls on it return: \<open>Exists()\<close>, \<open>String()\<close>,
  \<open>Float()\<close>, \<open>Bool()\<close>. The methods coerce: \<open>String()\<close> of a number is its text,
  \<open>Float()\<close> of a string is the number the string parses to, or 0, \<open>Bool()\<close> of a
  number says whether it is not 0.
\<close>

datatype gjson_Type = TNull | TFalse | TNumber | TString | TTrue | TJSON

record gjson_Result =
  ResultType :: gjson_Type
  Exists :: bool
  String :: string
  Float :: float64
  Bool :: bool

text \<open>
  Go \<open>error\<close> values. \<open>LibError\<close> is an error returned by a library call (its text);
  every other constructor is one \<open>fmt.Errorf\<close> of the monitor, with the values it formats.
\<close>

datatype error =
    LibError string
  | InvalidTimeout error \<comment> \<open>\<open>invalid timeout duration: %w\<close>\<close>
  | UnknownCheckerType string \<comment> \<open>\<open>unknown checker type: %s\<close>\<close>
  | CreateRequestFailed error \<comment> \<open>\<open>failed to create request: %w\<close>\<close>
  | ReadBodyFailed error \<comment> \<open>\<open>failed to read response body: %w\<close>\<close>
  | JSONPathNotFound string \<comment> \<open>\<open>JSON path '%s' not found in response\<close>\<close>
  | JSONAssertionFailed string string Value gjson_Result
      \<comment> \<open>\<open>JSON assertion failed: %s %s %v, got %v\<close>: path, operator, expected, actual\<close>
  | TLSConnectionFailed error \<comment> \<open>\<open>TLS connection failed: %w\<close>\<close>
  | NoCertificates \<comment> \<open>\<open>no certificates found\<close>\<close>
  | CertificateExpired Time \<comment> \<open>\<open>certificate expired on %s\<close>, the date of \<open>NotAfter\<close>\<close>
  | CertificateExpiring int int
      \<comment> \<open>\<open>certificate expires in %d days (warning threshold: %d days)\<close>\<close>
  | DNSResolutionFailed error \<comment> \<open>\<open>DNS resolution failed: %w\<close>\<close>
  | NoIPAddresses string \<comment> \<open>\<open>no IP addresses found for %s\<close>\<close>
  | LatencyExceeded int int \<comment> \<open>\<open>latency %dms exceeds threshold of %dms\<close>\<close>

record Result =
  ServiceName :: string
  Status :: Status
  ResponseTime :: Duration
  StatusCode :: int
  Error :: "error option"
  CheckedAt :: Time
  Message :: string

text \<open>The verb \<open>%d\<close> of \<open>fmt.Sprintf\<close> on an \<open>int\<close>.\<close>

definition digit :: "nat \<Rightarrow> char" where
  "digit n = ''0123456789'' ! n"

fun digits :: "nat \<Rightarrow> string" where
  "digits n = (if n < 10 then [digit n] else digits (n div 10) @ [digit (n mod 10)])"

definition fmt_d :: "int \<Rightarrow> string" where
  "fmt_d i = (if i < 0 then CHR ''-'' # digits (nat (- i)) else digits (nat i))"

subsection \<open>The JSON assertion evaluator\<close>

text \<open>\<open>strings.Contains s substr\<close>: \<open>substr\<close> occurs in \<open>s\<close> as a contiguous block.\<close>

fun Contains :: "string \<Rightarrow> string \<Rightarrow> bool" where
  "Contains [] substr = (substr = [])"
| "Contains (c # s) substr = (prefix substr (c # s) \<or> Contains s substr)"

text \<open>The type switch of \<open>jsonValueEquals\<close> and the type assertions of the other comparisons.\<close>

fun jsonValueEquals :: "gjson_Result \<Rightarrow> Value \<Rightarrow> bool" where
  "jsonValueEquals actual (VString v) = (String actual = v)"
| "jsonValueEquals actual (VFloat64 v) = f64_eq (Float actual) v"
| "jsonValueEquals actual (VBool v) = (Bool actual = v)"
| "jsonValueEquals actual VNil = (\<not> Exists actual)"
| "jsonValueEquals actual _ = False"

fun jsonGreaterThan :: "gjson_Result \<Rightarrow> Value \<Rightarrow> bool" where
  "jsonGreaterThan actual (VFloat64 v) = f64_gt (Float actual) v"
| "jsonGreaterThan actual _ = False"

fun jsonLessThan :: "gjson_Result \<Rightarrow> Value \<Rightarrow> bool" where
  "jsonLessThan actual (VFloat64 v) = f64_lt (Float actual) v"
| "jsonLessThan actual _ = False"

fun jsonGreaterOrEqual :: "gjson_Result \<Rightarrow> Value \<Rightarrow> bool" where
  "jsonGreaterOrEqual actual (VFloat64 v) = f64_ge (Float actual) v"
| "jsonGreaterOrEqual actual _ = False"

fun jsonLessOrEqual :: "gjson_Result \<Rightarrow> Value \<Rightarrow> bool" where
  "jsonLessOrEqual actual (VFloat64 v) = f64_le (Float actual) v"
| "jsonLessOrEqual actual _ = False"

fun jsonContains :: "gjson_Result \<Rightarrow> Value \<Rightarrow> bool" where
  "jsonContains actual (VString v) = Contains (String actual) v"
| "jsonContains actual _ = False"

text \<open>
  \<open>compareValue\<close> switches on \<open>strings.ToLower(operator)\<close>. \<open>strings.ToLower\<close> is a
  library function (it lowers every Unicode letter): it is the parameter \<open>lower\<close>.
\<close>

definition compareValue ::
  "(string \<Rightarrow> string) \<Rightarrow> gjson_Result \<Rightarrow> Value \<Rightarrow> string \<Rightarrow> bool" where
  "compareValue lower actual expected operator =
     (let op = lower operator in
      if op = ''=='' \<or> op = ''equals'' then jsonValueEquals actual expected
      else if op = ''!='' \<or> op = ''not_equals'' then \<not> jsonValueEquals actual expected
      else if op = ''>'' then jsonGreaterThan actual expected
      else if op = ''<'' then jsonLessThan actual expected
      else if op = ''>='' then jsonGreaterOrEqual actual expected
      else if op = ''<='' then jsonLessOrEqual actual expected
      else if op = ''contains'' then jsonContains actual expected
      else False)"

text \<open>
  \<open>validateJSONAssertions\<close>: \<open>get\<close> is \<open>gjson.Get\<close> (a library function of the body and a
  path), \<open>lower\<close> is \<open>strings.ToLower\<close>. The loop returns at the first assertion whose path is missing or whose
  comparison is false.
\<close>

fun validateJSONAssertions ::
  "(string \<Rightarrow> string) \<Rightarrow> (string \<Rightarrow> string \<Rightarrow> gjson_Result) \<Rightarrow> string \<Rightarrow>
     JSONAssertion list \<Rightarrow> error option" where
  "validateJSONAssertions lower get body [] = None"
| "validateJSONAssertions lower get body (assertion # rest) =
     (let v = get body (Path assertion) in
      if \<not> Exists v then Some (JSONPathNotFound (Path assertion))
      else if \<not> compareValue lower v (Value assertion) (Operator assertion)
      then Some (JSONAssertionFailed (Path assertion) (Operator assertion) (Value assertion) v)
      else validateJSONAssertions lower get body rest)"

subsection \<open>The network, as one probe sees it\<close>

text \<open>
  A checker's \<open>Check\<close> calls the clock, the network and two library functions on
  strings. \<open>Net\<close> holds what those calls return during one \<open>Check\<close>; the request a checker builds (URL, method, headers, auth,
  host and port) only selects which outcome the network gives, so the outcome is the
  input of the model. A certificate is represented by its \<open>NotAfter\<close>.
\<close>

record Net =
  timeNow :: Time \<comment> \<open>\<open>time.Now()\<close> for \<open>CheckedAt\<close>\<close>
  timeSince :: Duration \<comment> \<open>\<open>time.Since(start)\<close>\<close>
  newRequest :: "error option" \<comment> \<open>the error of \<open>http.NewRequestWithContext\<close>\<close>
  clientDo :: "error + int" \<comment> \<open>\<open>client.Do\<close>: an error, or \<open>resp.StatusCode\<close>\<close>
  readAll :: "error + string" \<comment> \<open>\<open>io.ReadAll(resp.Body)\<close>\<close>
  gjsonGet :: "string \<Rightarrow> string \<Rightarrow> gjson_Result" \<comment> \<open>\<open>gjson.Get\<close>\<close>
  toLower :: "string \<Rightarrow> string" \<comment> \<open>\<open>strings.ToLower\<close>\<close>
  dialTimeout :: "error option" \<comment> \<open>the error of \<open>net.DialTimeout\<close>\<close>
  dialTLS :: "error + Time list"
    \<comment> \<open>\<open>tls.DialWithDialer\<close>: an error, or the \<open>NotAfter\<close> of each peer certificate\<close>
  timeUntilNow :: Time \<comment> \<open>the clock read by \<open>time.Until\<close>\<close>
  timeAfterNow :: Time \<comment> \<open>the clock read by \<open>time.Now().After\<close>\<close>
  lookupIPAddr :: "error + string list" \<comment> \<open>\<open>resolver.LookupIPAddr\<close>\<close>

definition newResult :: "Net \<Rightarrow> Service \<Rightarrow> Result" where
  "newResult net service =
     \<lparr>ServiceName = Name service, Status = StatusChecking, ResponseTime = 0, StatusCode = 0,
      Error = None, CheckedAt = timeNow net, Message = []\<rparr>"

subsection \<open>The checkers\<close>

text \<open>The status code the HTTP checker expects: 200 when \<open>ExpectedStatus\<close> is 0.\<close>

definition expectedStatusOf :: "Service \<Rightarrow> int" where
  "expectedStatusOf service =
     (if ExpectedStatus service = 0 then 200 else ExpectedStatus service)"

definition HTTPChecker_Check :: "Net \<Rightarrow> Service \<Rightarrow> Result" where
  "HTTPChecker_Check net service =
     (let result = newResult net service in
      case newRequest net of
        Some err \<Rightarrow> result\<lparr>Status := StatusUnhealthy, Error := Some (CreateRequestFailed err)\<rparr>
      | None \<Rightarrow>
          (let result = result\<lparr>ResponseTime := timeSince net\<rparr> in
           case clientDo net of
             Inl err \<Rightarrow>
               result\<lparr>Status := StatusUnhealthy, Error := Some err,
                       Message := ''Connection failed''\<rparr>
           | Inr code \<Rightarrow>
               (let result = result\<lparr>StatusCode := code\<rparr> in
                case readAll net of
                  Inl err \<Rightarrow> result\<lparr>Status := StatusUnhealthy, Error := Some (ReadBodyFailed err)\<rparr>
                | Inr body \<Rightarrow>
                    (let expectedStatus = expectedStatusOf service in
                     if code \<noteq> expectedStatus
                     then result\<lparr>Status := StatusUnhealthy,
                                  Message := ''Expected '' @ fmt_d expectedStatus @ '', got '' @ fmt_d code\<rparr>
                     else
                       (case (if JSONAssertions service \<noteq> []
                              then validateJSONAssertions (toLower net) (gjsonGet net) body
                                     (JSONAssertions service)
                              else None) of
                          Some err \<Rightarrow> result\<lparr>Status := StatusUnhealthy, Error := Some err\<rparr>
                        | None \<Rightarrow>
                            result\<lparr>Status := StatusHealthy, Message := ''HTTP '' @ fmt_d code\<rparr>)))))"

definition TCPChecker_Check :: "Net \<Rightarrow> Service \<Rightarrow> Result" where
  "TCPChecker_Check net service =
     (let result = (newResult net service)\<lparr>ResponseTime := timeSince net\<rparr> in
      case dialTimeout net of
        Some err \<Rightarrow>
          result\<lparr>Status := StatusUnhealthy, Error := Some err, Message := ''Connection refused''\<rparr>
      | None \<Rightarrow> result\<lparr>Status := StatusHealthy, Message := ''Port open''\<rparr>)"

text \<open>
  \<open>time.Until(t)\<close> is \<open>t.Sub(time.Now())\<close>, which saturates at the ends of \<open>int64\<close>.
\<close>

definition maxDuration :: Duration where
  "maxDuration = 2 ^ 63 - 1"

definition minDuration :: Duration where
  "minDuration = - (2 ^ 63)"

definition Sub :: "Time \<Rightarrow> Time \<Rightarrow> Duration" where
  "Sub t u =
     (let d = t - u in
      if d > maxDuration then maxDuration else if d < minDuration then minDuration else d)"

definition Until :: "Time \<Rightarrow> Time \<Rightarrow> Duration" where
  "Until now t = Sub t now"

text \<open>
  The days until expiry are computed in \<open>float64\<close>. A finite \<open>float64\<close> is given by the
  rational it denotes; a conversion from an integer and every arithmetic operation
  return the exact result rounded to the nearest \<open>float64\<close>, ties to the even
  significand. \<open>round64\<close> is that rounding to 53 significant bits; the values here lie
  far inside the exponent range, so there is neither overflow nor underflow.
  \<open>ilog2 x\<close> is the exponent of a positive \<open>x\<close>: the \<open>e\<close> with \<open>2 ^ e \<le> x < 2 ^ (e + 1)\<close>.
\<close>

function log2up :: "rat \<Rightarrow> int" where
  "log2up x = (if x < 2 then 0 else log2up (x / 2) + 1)"
  by pat_completeness auto
termination
proof (relation "measure (\<lambda>x. nat \<lfloor>x\<rfloor>)")
  show "wf (measure (\<lambda>x::rat. nat \<lfloor>x\<rfloor>))" by simp
next
  fix x :: rat
  assume "\<not> x < 2"
  then have "x / 2 \<le> x - 1" by simp
  then have "\<lfloor>x / 2\<rfloor> \<le> \<lfloor>x - 1\<rfloor>" by (rule floor_mono)
  moreover from \<open>\<not> x < 2\<close> have "2 \<le> \<lfloor>x\<rfloor>" by (simp add: le_floor_iff)
  ultimately show "(x / 2, x) \<in> measure (\<lambda>x. nat \<lfloor>x\<rfloor>)" by simp
qed

function log2down :: "rat \<Rightarrow> int" where
  "log2down x = (if x \<le> 0 \<or> 1 \<le> x then 0 else log2down (2 * x) - 1)"
  by pat_completeness auto
termination
proof (relation "measure (\<lambda>x. nat \<lfloor>1 / x\<rfloor>)")
  show "wf (measure (\<lambda>x::rat. nat \<lfloor>1 / x\<rfloor>))" by simp
next
  fix x :: rat
  assume "\<not> (x \<le> 0 \<or> 1 \<le> x)"
  then have x: "0 < x" "x < 1" by simp_all
  then have "1 < 1 / x" by simp
  then have one: "1 \<le> \<lfloor>1 / x\<rfloor>" by (simp add: le_floor_iff)
  have "of_int \<lfloor>1 / (2 * x)\<rfloor> \<le> 1 / (2 * x)" by (rule of_int_floor_le)
  also have "\<dots> = (1 / x) / 2" by simp
  also have "\<dots> < of_int (\<lfloor>1 / x\<rfloor> + 1) / 2"
    using floor_correct [of "1 / x"] by (simp add: divide_strict_right_mono)
  also have "\<dots> \<le> of_int \<lfloor>1 / x\<rfloor>" using one by simp
  finally have "\<lfloor>1 / (2 * x)\<rfloor> < \<lfloor>1 / x\<rfloor>" by simp
  with one show "(2 * x, x) \<in> measure (\<lambda>x. nat \<lfloor>1 / x\<rfloor>)" by simp
qed

declare log2up.simps [simp del] log2down.simps [simp del]

definition ilog2 :: "rat \<Rightarrow> int" where
  "ilog2 x = (if 1 \<le> x then log2up x else log2down x)"

definition roundHalfEven :: "rat \<Rightarrow> int" where
  "roundHalfEven q =
     (let f = \<lfloor>q\<rfloor>; r = q - of_int f in
      if r < 1 / 2 then f else if 1 / 2 < r then f + 1 else if even f then f else f + 1)"

definition round64 :: "rat \<Rightarrow> rat" where
  "round64 x =
     (if x = 0 then 0
      else (let ulp = 2 powi (ilog2 \<bar>x\<bar> - 52) in of_int (roundHalfEven (x / ulp)) * ulp))"

text \<open>
  \<open>Duration.Hours\<close>: \<open>hour := d / Hour; nsec := d % Hour;
  return float64(hour) + float64(nsec)/(60*60*1e9)\<close>, the integer division and remainder
  truncating towards zero. The checker divides the hours by 24 and converts with
  \<open>int(...)\<close>, which truncates towards zero.
\<close>

definition Hours :: "Duration \<Rightarrow> rat" where
  "Hours d =
     round64 (round64 (of_int (d sdiv Hour)) +
              round64 (round64 (of_int (d smod Hour)) / (60 * 60 * 1000000000)))"

definition toInt :: "rat \<Rightarrow> int" where
  "toInt x = (if x < 0 then \<lceil>x\<rceil> else \<lfloor>x\<rfloor>)"

definition expiryDaysOf :: "Duration \<Rightarrow> int" where
  "expiryDaysOf d = toInt (round64 (Hours d / 24))"

definition Milliseconds :: "Duration \<Rightarrow> int" where
  "Milliseconds d = d sdiv 1000000"

definition warningDaysOf :: "Service \<Rightarrow> int" where
  "warningDaysOf service = (if TLSWarningDays service = 0 then 30 else TLSWarningDays service)"

definition TLSChecker_Check :: "Net \<Rightarrow> Service \<Rightarrow> Result" where
  "TLSChecker_Check net service =
     (let result = (newResult net service)\<lparr>ResponseTime := timeSince net\<rparr> in
      case dialTLS net of
        Inl err \<Rightarrow>
          result\<lparr>Status := StatusUnhealthy, Error := Some (TLSConnectionFailed err),
                  Message := ''TLS connection failed''\<rparr>
      | Inr [] \<Rightarrow>
          result\<lparr>Status := StatusUnhealthy, Error := Some NoCertificates,
                  Message := ''No certificates found''\<rparr>
      | Inr (notAfter # _) \<Rightarrow>
          (let expiryDays = expiryDaysOf (Until (timeUntilNow net) notAfter);
               warningDays = warningDaysOf service;
               result = result\<lparr>Message := ''Certificate expires in '' @ fmt_d expiryDays @ '' days''\<rparr>
           in
           if timeAfterNow net > notAfter
           then result\<lparr>Status := StatusUnhealthy, Error := Some (CertificateExpired notAfter)\<rparr>
           else if expiryDays < warningDays
           then result\<lparr>Status := StatusUnhealthy,
                        Error := Some (CertificateExpiring expiryDays warningDays)\<rparr>
           else result\<lparr>Status := StatusHealthy\<rparr>))"

text \<open>
  The host the DNS checker resolves: \<open>strings.Split(host, sep)[1]\<close> after \<open>://\<close>, then
  \<open>strings.Split(host, sep)[0]\<close> before \<open>/\<close> and before \<open>:\<close>, each only when
  \<open>strings.Contains(host, sep)\<close>. \<open>cut\<close> splits at the first occurrence of a non-empty
  separator.
\<close>

fun cut :: "string \<Rightarrow> string \<Rightarrow> (string \<times> string) option" where
  "cut [] sep = None"
| "cut (c # s) sep =
     (if prefix sep (c # s) then Some ([], drop (length sep) (c # s))
      else (case cut s sep of None \<Rightarrow> None | Some (a, b) \<Rightarrow> Some (c # a, b)))"

definition splitFirst :: "string \<Rightarrow> string \<Rightarrow> string" where
  "splitFirst s sep = (case cut s sep of None \<Rightarrow> s | Some (a, b) \<Rightarrow> a)"

definition splitSecond :: "string \<Rightarrow> string \<Rightarrow> string" where
  "splitSecond s sep = (case cut s sep of None \<Rightarrow> s | Some (a, b) \<Rightarrow> splitFirst b sep)"

definition dnsHost :: "string \<Rightarrow> string" where
  "dnsHost url =
     (let host = url;
          host = (if Contains host ''://'' then splitSecond host ''://'' else host);
          host = (if Contains host ''/'' then splitFirst host ''/'' else host);
          host = (if Contains host '':'' then splitFirst host '':'' else host)
      in host)"

definition DNSChecker_Check :: "Net \<Rightarrow> Service \<Rightarrow> Result" where
  "DNSChecker_Check net service =
     (let result = (newResult net service)\<lparr>ResponseTime := timeSince net\<rparr> in
      case lookupIPAddr net of
        Inl err \<Rightarrow>
          result\<lparr>Status := StatusUnhealthy, Error := Some (DNSResolutionFailed err),
                  Message := ''DNS resolution failed''\<rparr>
      | Inr [] \<Rightarrow>
          result\<lparr>Status := StatusUnhealthy, Error := Some (NoIPAddresses (dnsHost (URL service))),
                  Message := ''No IP addresses found''\<rparr>
      | Inr (ip # _) \<Rightarrow> result\<lparr>Status := StatusHealthy, Message := ''Resolved to '' @ ip\<rparr>)"

definition LatencyChecker_Check :: "Net \<Rightarrow> Service \<Rightarrow> Result" where
  "LatencyChecker_Check net service =
     (let result = newResult net service in
      case newRequest net of
        Some err \<Rightarrow> result\<lparr>Status := StatusUnhealthy, Error := Some (CreateRequestFailed err)\<rparr>
      | None \<Rightarrow>
          (let result = result\<lparr>ResponseTime := timeSince net\<rparr> in
           case clientDo net of
             Inl err \<Rightarrow>
               result\<lparr>Status := StatusUnhealthy, Error := Some err,
                       Message := ''Connection failed''\<rparr>
           | Inr code \<Rightarrow>
               (let latencyMs = Milliseconds (ResponseTime result);
                    thresholdMs =
                      (if LatencyThreshold service = 0 then 5000 else LatencyThreshold service);
                    result = result\<lparr>Message := ''Latency: '' @ fmt_d latencyMs @ ''ms''\<rparr>
                in
                if latencyMs > thresholdMs
                then result\<lparr>Status := StatusUnhealthy,
                             Error := Some (LatencyExceeded latencyMs thresholdMs)\<rparr>
                else result\<lparr>Status := StatusHealthy\<rparr>)))"

text \<open>
  The \<open>Checker\<close> interface has the five implementations that \<open>NewMonitor\<close> registers;
  each holds the timeout it was built with.
\<close>

datatype Checker =
    HTTPChecker Duration
  | TCPChecker Duration
  | TLSChecker Duration
  | DNSChecker Duration
  | LatencyChecker Duration

fun Check :: "Checker \<Rightarrow> Net \<Rightarrow> Service \<Rightarrow> Result" where
  "Check (HTTPChecker _) net service = HTTPChecker_Check net service"
| "Check (TCPChecker _) net service = TCPChecker_Check net service"
| "Check (TLSChecker _) net service = TLSChecker_Check net service"
| "Check (DNSChecker _) net service = DNSChecker_Check net service"
| "Check (LatencyChecker _) net service = LatencyChecker_Check net service"

subsection \<open>package notify\<close>

text \<open>
  The notifier's methods always return a nil error; what they do is send desktop
  notifications. The model returns the notifications sent: a failure notification shows
  the service name, \<open>result.Message\<close> and \<open>result.Error\<close> (when it is not nil), a
  recovery notification the service name and the response time. \<open>notify.CheckResult\<close>
  has the fields of \<open>monitor.Result\<close>, and the monitor copies them one by one.
\<close>

record Notifier =
  enabled :: bool

datatype Notification =
    FailureNotification string string "error option"
  | RecoveryNotification string Duration

definition NotifyFailure :: "Notifier \<Rightarrow> Result \<Rightarrow> Notification list" where
  "NotifyFailure n result =
     (if \<not> enabled n then []
      else [FailureNotification (ServiceName result) (Message result) (Error result)])"

definition NotifyRecovery :: "Notifier \<Rightarrow> Result \<Rightarrow> Notification list" where
  "NotifyRecovery n result =
     (if \<not> enabled n then []
      else [RecoveryNotification (ServiceName result) (ResponseTime result)])"

definition NotifyStatusChange :: "Notifier \<Rightarrow> Result \<Rightarrow> Status \<Rightarrow> Notification list" where
  "NotifyStatusChange n result previousStatus =
     (if \<not> enabled n then []
      else if Status result = ''healthy'' \<and> previousStatus = ''unhealthy''
      then NotifyRecovery n result
      else if Status result = ''unhealthy'' \<and>
              (previousStatus = ''healthy'' \<or> previousStatus = ''unknown'')
      then NotifyFailure n result
      else [])"

subsection \<open>The monitor\<close>

record Monitor =
  Config :: Config
  checkers :: "string \<rightharpoonup> Checker"
  notifier :: Notifier
  serviceStatuses :: "string \<rightharpoonup> Status"

text \<open>
  \<open>NewMonitor\<close>. \<open>time.ParseDuration\<close> is a library function: it is the parameter
  \<open>ParseDuration\<close>, which returns an error or the duration.
\<close>

definition NewMonitor :: "(string \<Rightarrow> error + Duration) \<Rightarrow> Config \<Rightarrow> error + Monitor" where
  "NewMonitor ParseDuration cfg =
     (case ParseDuration (Timeout cfg) of
        Inl err \<Rightarrow> Inl (InvalidTimeout err)
      | Inr timeout \<Rightarrow>
          Inr \<lparr>Config = cfg,
               checkers = [''http'' \<mapsto> HTTPChecker timeout, ''tcp'' \<mapsto> TCPChecker timeout,
                           ''tls'' \<mapsto> TLSChecker timeout, ''dns'' \<mapsto> DNSChecker timeout,
                           ''latency'' \<mapsto> LatencyChecker timeout],
               notifier = \<lparr>enabled = True\<rparr>,
               serviceStatuses = Map.empty\<rparr>)"

text \<open>
  \<open>Monitor.Start\<close>, before its first cycle: the interval of the ticker, and the statuses
  it initialises.
\<close>

definition Start_checkInterval :: "(string \<Rightarrow> error + Duration) \<Rightarrow> Monitor \<Rightarrow> Duration" where
  "Start_checkInterval ParseDuration m =
     (case ParseDuration (CheckInterval (Config m)) of
        Inl err \<Rightarrow> 30 * Second
      | Inr checkInterval \<Rightarrow> checkInterval)"

definition Start_serviceStatuses :: "Monitor \<Rightarrow> Monitor" where
  "Start_serviceStatuses m =
     m\<lparr>serviceStatuses :=
         fold (\<lambda>service statuses. statuses(Name service \<mapsto> StatusUnknown))
           (Services (Config m)) (serviceStatuses m)\<rparr>"

text \<open>
  \<open>Monitor.checkService\<close>. What one call does is recorded as a list of events, in order:
  a result sent on \<open>m.results\<close>, a call of \<open>checker.Check\<close> (with the attempt's number),
  a \<open>time.Sleep\<close>, a desktop notification. \<open>Ctx\<close> holds what the call reads from outside:
  which branch each \<open>select\<close> takes (the send, or \<open>ctx.Done()\<close>), the clock, and the
  network of each attempt.
\<close>

datatype Event =
    Published Result
  | Probed int
  | Slept Duration
  | Notified Notification

record Ctx =
  doneAtChecking :: bool \<comment> \<open>the first \<open>select\<close> takes \<open>ctx.Done()\<close>\<close>
  doneAtResult :: bool \<comment> \<open>the last \<open>select\<close> takes \<open>ctx.Done()\<close>\<close>
  nowChecking :: Time \<comment> \<open>\<open>time.Now()\<close> of the checking result\<close>
  nowUnknown :: Time \<comment> \<open>\<open>time.Now()\<close> of the unknown result\<close>
  nets :: "nat \<Rightarrow> Net" \<comment> \<open>the network during attempt 0, 1, ...\<close>

definition zeroResult :: Result where
  "zeroResult =
     \<lparr>ServiceName = [], Status = [], ResponseTime = 0, StatusCode = 0, Error = None,
      CheckedAt = 0, Message = []\<rparr>"

function retryLoop ::
  "(nat \<Rightarrow> Net) \<Rightarrow> Checker \<Rightarrow> Service \<Rightarrow> int \<Rightarrow> int \<Rightarrow> Result \<Rightarrow> Event list
     \<Rightarrow> Result \<times> Event list" where
  "retryLoop world checker service retries attempt result evs =
     (if attempt < retries then
        (let result' = Check checker (world (nat attempt)) service;
             evs' = evs @ [Probed attempt]
         in
         if Status result' = StatusHealthy then (result', evs')
         else retryLoop world checker service retries (attempt + 1) result'
                (if attempt < retries - 1 then evs' @ [Slept Second] else evs'))
      else (result, evs))"
  by pat_completeness auto
termination
  by (relation "measure (\<lambda>(world, checker, service, retries, attempt, result, evs).
        nat (retries - attempt))") auto

text \<open>
  The status tracking of \<open>checkService\<close> (under \<open>muStatusLock\<close>) and the notification that
  follows it. A Go map returns the zero value, the empty \<open>Status\<close>, for a missing key.
\<close>

definition trackStatus :: "Monitor \<Rightarrow> Result \<Rightarrow> Monitor \<times> Notification list" where
  "trackStatus m result =
     (let previousStatus =
            (case serviceStatuses m (ServiceName result) of None \<Rightarrow> [] | Some s \<Rightarrow> s);
          m' = m\<lparr>serviceStatuses := (serviceStatuses m)(ServiceName result \<mapsto> Status result)\<rparr>
      in
      if previousStatus \<noteq> Status result \<and> Status result \<noteq> StatusChecking then
        if (previousStatus \<noteq> StatusUnknown \<and> previousStatus \<noteq> StatusChecking) \<or>
           (Status result = StatusHealthy \<or> Status result = StatusUnhealthy)
        then (m', NotifyStatusChange (notifier m) result previousStatus)
        else (m', [])
      else (m', []))"

definition checkerTypeOf :: "Service \<Rightarrow> string" where
  "checkerTypeOf service = (if Type service = [] then ''http'' else Type service)"

definition checkingResult :: "Ctx \<Rightarrow> Service \<Rightarrow> Result" where
  "checkingResult ctx service =
     \<lparr>ServiceName = Name service, Status = StatusChecking, ResponseTime = 0, StatusCode = 0,
      Error = None, CheckedAt = nowChecking ctx, Message = []\<rparr>"

definition unknownResult :: "Ctx \<Rightarrow> Service \<Rightarrow> Result" where
  "unknownResult ctx service =
     \<lparr>ServiceName = Name service, Status = StatusUnknown, ResponseTime = 0, StatusCode = 0,
      Error = Some (UnknownCheckerType (checkerTypeOf service)), CheckedAt = nowUnknown ctx,
      Message = []\<rparr>"

definition retriesOf :: "Monitor \<Rightarrow> int" where
  "retriesOf m = (if RetryAttempts (Config m) < 1 then 1 else RetryAttempts (Config m))"

definition checkService :: "Ctx \<Rightarrow> Monitor \<Rightarrow> Service \<Rightarrow> Monitor \<times> Event list" where
  "checkService ctx m service =
     (if doneAtChecking ctx then (m, [])
      else
        (case checkers m (checkerTypeOf service) of
           None \<Rightarrow> (m, [Published (checkingResult ctx service), Published (unknownResult ctx service)])
         | Some checker \<Rightarrow>
             (let (result, probes) =
                    retryLoop (nets ctx) checker service (retriesOf m) 0 zeroResult [];
                  (m', notifications) = trackStatus m result
              in
              (m', [Published (checkingResult ctx service)] @ probes @ map Notified notifications @
                   (if doneAtResult ctx then [] else [Published result])))))"

text \<open>
  \<open>Monitor.AddService\<close> starts \<open>checkService\<close> for the service in a goroutine of its own.
  It expects the service to be in \<open>m.Config\<close> already, and leaves \<open>serviceStatuses\<close> as
  it is.
\<close>

definition Monitor_AddService :: "Ctx \<Rightarrow> Monitor \<Rightarrow> Service \<Rightarrow> Monitor \<times> Event list" where
  "Monitor_AddService ctx m service = checkService ctx m service"

text \<open>The events of one kind, in order.\<close>

fun publishedOf :: "Event list \<Rightarrow> Result list" where
  "publishedOf [] = []"
| "publishedOf (Published r # es) = r # publishedOf es"
| "publishedOf (_ # es) = publishedOf es"

fun probesOf :: "Event list \<Rightarrow> int list" where
  "probesOf [] = []"
| "probesOf (Probed a # es) = a # probesOf es"
| "probesOf (_ # es) = probesOf es"

fun sleepsOf :: "Event list \<Rightarrow> Duration list" where
  "sleepsOf [] = []"
| "sleepsOf (Slept d # es) = d # sleepsOf es"
| "sleepsOf (_ # es) = sleepsOf es"

fun notifiedOf :: "Event list \<Rightarrow> Notification list" where
  "notifiedOf [] = []"
| "notifiedOf (Notified n # es) = n # notifiedOf es"
| "notifiedOf (_ # es) = notifiedOf es"

text \<open>
  The events of the attempts \<open>a\<close> to \<open>k\<close> of a retry loop that stops at attempt \<open>k\<close>:
  each attempt before \<open>k\<close> is followed by a sleep of one second.
\<close>

definition probeTrace :: "int \<Rightarrow> int \<Rightarrow> Event list" where
  "probeTrace a k = concat (map (\<lambda>i. [Probed i, Slept Second]) [a..k - 1]) @ [Probed k]"

subsection \<open>Predicates of the properties\<close>

definition isHTTP :: "Checker \<Rightarrow> bool" where
  "isHTTP c = (case c of HTTPChecker _ \<Rightarrow> True | _ \<Rightarrow> False)"

text \<open>The request completed: it was built, answered with a status code, and its body read.\<close>

definition completed :: "Net \<Rightarrow> int \<Rightarrow> string \<Rightarrow> bool" where
  "completed net code body \<longleftrightarrow>
     newRequest net = None \<and> clientDo net = Inr code \<and> readAll net = Inr body"

text \<open>The request completed with a status code other than the expected one.\<close>

definition statusMismatch :: "Net \<Rightarrow> Service \<Rightarrow> bool" where
  "statusMismatch net service =
     (case (newRequest net, clientDo net, readAll net) of
        (None, Inr code, Inr body) \<Rightarrow> code \<noteq> expectedStatusOf service
      | _ \<Rightarrow> False)"

text \<open>An assertion passes: its path exists in the body and the comparison is true.\<close>

definition assertionPasses ::
  "(string \<Rightarrow> string) \<Rightarrow> (string \<Rightarrow> string \<Rightarrow> gjson_Result) \<Rightarrow> string \<Rightarrow> JSONAssertion \<Rightarrow>
     bool" where
  "assertionPasses lower get body a \<longleftrightarrow>
     Exists (get body (Path a)) \<and>
     compareValue lower (get body (Path a)) (Value a) (Operator a)"

text \<open>The error of an assertion that does not pass.\<close>

definition assertionError ::
  "(string \<Rightarrow> string \<Rightarrow> gjson_Result) \<Rightarrow> string \<Rightarrow> JSONAssertion \<Rightarrow> error" where
  "assertionError get body a =
     (if \<not> Exists (get body (Path a)) then JSONPathNotFound (Path a)
      else JSONAssertionFailed (Path a) (Operator a) (Value a) (get body (Path a)))"

subsection \<open>Concrete inputs\<close>

text \<open>
  The service of the default configuration, the service the configuration test adds,
  and the default configuration itself.
\<close>

definition exampleService :: Service where
  "exampleService =
     \<lparr>Name = ''example-api'', URL = ''https://api.example.com'', HealthEndpoint = ''/health'',
      Method = ''GET'', ExpectedStatus = 200, Headers = [], Type = [], Auth = None,
      JSONAssertions = [], TLSWarningDays = 0, LatencyThreshold = 0\<rparr>"

definition testService :: Service where
  "testService = exampleService\<lparr>Name := ''test-service'', URL := ''http://example.com''\<rparr>"

definition defaultConfig :: Config where
  "defaultConfig =
     \<lparr>CheckInterval = ''30s'', Timeout = ''5s'', RetryAttempts = 3, Services = [exampleService]\<rparr>"

text \<open>
  A network on which every call succeeds: the server answers 200 with an empty body, the
  ports are open. The variants differ in one call.
\<close>

text \<open>
  \<open>strings.ToLower\<close> on an ASCII string (the operators of the examples are ASCII): a
  capital becomes its small letter, every other character stays.
\<close>

definition asciiLowerChar :: "char \<Rightarrow> char" where
  "asciiLowerChar c =
     (case map_of (zip ''ABCDEFGHIJKLMNOPQRSTUVWXYZ'' ''abcdefghijklmnopqrstuvwxyz'') c of
        Some l \<Rightarrow> l
      | None \<Rightarrow> c)"

definition asciiToLower :: "string \<Rightarrow> string" where
  "asciiToLower s = map asciiLowerChar s"

text \<open>What \<open>gjson.Get\<close> returns for a path that does not exist.\<close>

definition noLeaf :: gjson_Result where
  "noLeaf = \<lparr>ResultType = TNull, Exists = False, String = [], Float = Finite 0, Bool = False\<rparr>"

definition quietNet :: Net where
  "quietNet =
     \<lparr>timeNow = 0, timeSince = 25000000, newRequest = None, clientDo = Inr 200,
      readAll = Inr [],
      gjsonGet = (\<lambda>body path. noLeaf), toLower = asciiToLower,
      dialTimeout = None, dialTLS = Inr [], timeUntilNow = 0, timeAfterNow = 0,
      lookupIPAddr = Inr []\<rparr>"

definition notFoundNet :: Net where
  "notFoundNet = quietNet\<lparr>clientDo := Inr 404\<rparr>"

definition refusedNet :: Net where
  "refusedNet = quietNet\<lparr>clientDo := Inl (LibError ''connection refused'')\<rparr>"

text \<open>The probe of the retry test: it fails twice, then succeeds.\<close>

definition failTwice :: "nat \<Rightarrow> Net" where
  "failTwice k = (if k < 2 then refusedNet else quietNet)"

definition alwaysNotFound :: "nat \<Rightarrow> Net" where
  "alwaysNotFound k = notFoundNet"

text \<open>
  \<open>time.ParseDuration\<close> on the strings of the examples: the two documented defaults
  parse, any other string of the examples (\<open>abc\<close>) is rejected.
\<close>

definition exampleParseDuration :: "string \<Rightarrow> error + Duration" where
  "exampleParseDuration s =
     (if s = ''5s'' then Inr (5 * Second)
      else if s = ''30s'' then Inr (30 * Second)
      else Inl (LibError ''time: invalid duration''))"

text \<open>The monitor of the default configuration, after \<open>Start\<close> has initialised the statuses.\<close>

definition exampleMonitor :: Monitor where
  "exampleMonitor =
     Start_serviceStatuses (projr (NewMonitor exampleParseDuration defaultConfig))"

definition exampleCtx :: Ctx where
  "exampleCtx =
     \<lparr>doneAtChecking = False, doneAtResult = False, nowChecking = 0, nowUnknown = 0,
      nets = failTwice\<rparr>"

text \<open>
  The running monitor after the form of the dashboard has added the test service: the
  form calls \<open>m.monitor.Config.AddService\<close> and then \<open>m.monitor.AddService\<close>.
\<close>

definition addedMonitor :: Monitor where
  "addedMonitor =
     exampleMonitor\<lparr>Config := snd (AddService (Config exampleMonitor) testService)\<rparr>"

text \<open>
  The transitions that notify, in the words of the specification: into unhealthy from any
  other status, or from unhealthy into healthy; never from a status to itself, and never
  with checking on either side.
\<close>

definition notifiable :: "Status \<Rightarrow> Status \<Rightarrow> bool" where
  "notifiable previous new \<longleftrightarrow>
     previous \<noteq> new \<and> previous \<noteq> StatusChecking \<and> new \<noteq> StatusChecking \<and>
     (new = StatusUnhealthy \<or> (previous = StatusUnhealthy \<and> new = StatusHealthy))"

definition isStatus :: "Status \<Rightarrow> bool" where
  "isStatus s \<longleftrightarrow>
     s = StatusHealthy \<or> s = StatusUnhealthy \<or> s = StatusUnknown \<or> s = StatusChecking"

text \<open>
  TLS networks: a handshake that fails, and a handshake that returns one certificate
  with the given \<open>NotAfter\<close>; the clock reads 0 in \<open>time.Until\<close> and 1 in
  \<open>time.Now().After\<close>. The handshake verifies the certificate, so \<open>NotAfter\<close> is not
  before the handshake: a certificate with \<open>NotAfter\<close> 0 expires during the check.
\<close>

definition handshakeFailedNet :: Net where
  "handshakeFailedNet = quietNet\<lparr>dialTLS := Inl (LibError ''remote error: tls: handshake failure'')\<rparr>"

definition certNet :: "Time \<Rightarrow> Net" where
  "certNet notAfter = quietNet\<lparr>dialTLS := Inr [notAfter], timeAfterNow := 1\<rparr>"

text \<open>
  A health endpoint's JSON body and what \<open>gjson.Get\<close> finds in it: the string leaf
  \<open>status\<close> and the number leaf \<open>uptime\<close>; no other path exists.
\<close>

definition healthBody :: string where
  \<open>healthBody = ''{"status": "ok", "uptime": 3600}''\<close>

definition statusLeaf :: gjson_Result where
  "statusLeaf =
     \<lparr>ResultType = TString, Exists = True, String = ''ok'', Float = Finite 0, Bool = False\<rparr>"

definition uptimeLeaf :: gjson_Result where
  "uptimeLeaf =
     \<lparr>ResultType = TNumber, Exists = True, String = ''3600'', Float = Finite 3600, Bool = True\<rparr>"

definition healthGet :: "string \<Rightarrow> string \<Rightarrow> gjson_Result" where
  "healthGet body path =
     (if body = healthBody \<and> path = ''status'' then statusLeaf
      else if body = healthBody \<and> path = ''uptime'' then uptimeLeaf
      else noLeaf)"

definition healthNet :: Net where
  "healthNet = quietNet\<lparr>readAll := Inr healthBody, gjsonGet := healthGet\<rparr>"

definition statusIs :: "string \<Rightarrow> JSONAssertion" where
  "statusIs v = \<lparr>Path = ''status'', Value = VString v, Operator = ''==''\<rparr>"

definition uptimeAbove :: "rat \<Rightarrow> JSONAssertion" where
  "uptimeAbove v = \<lparr>Path = ''uptime'', Value = VFloat64 (Finite v), Operator = ''>''\<rparr>"

definition versionIs :: "string \<Rightarrow> JSONAssertion" where
  "versionIs v = \<lparr>Path = ''version'', Value = VString v, Operator = ''==''\<rparr>"





section \<open>Properties\<close>

subsection \<open>Basic facts about statuses, checkers and events\<close>

lemmas Status_defs = StatusHealthy_def StatusUnhealthy_def StatusUnknown_def StatusChecking_def

lemmas Check_defs = HTTPChecker_Check_def TCPChecker_Check_def TLSChecker_Check_def
  DNSChecker_Check_def LatencyChecker_Check_def newResult_def

lemma Check_Status:
  "Status (Check c net service) = StatusHealthy \<or> Status (Check c net service) = StatusUnhealthy"
  by (cases c) (auto simp: Check_defs Let_def split: option.splits sum.splits list.splits)

lemma Check_not_checking: "Status (Check c net service) \<noteq> StatusChecking"
  using Check_Status [of c net service] by (auto simp: Status_defs)

lemma Check_ServiceName: "ServiceName (Check c net service) = Name service"
  by (cases c) (auto simp: Check_defs Let_def split: option.splits sum.splits list.splits)

lemma Check_Error:
  "Error (Check c net service) \<noteq> None \<longleftrightarrow>
     Status (Check c net service) \<noteq> StatusHealthy \<and> \<not> (isHTTP c \<and> statusMismatch net service)"
  by (cases c)
    (auto simp: Check_defs Let_def Status_defs isHTTP_def statusMismatch_def
      split: option.splits sum.splits list.splits)

lemma publishedOf_append: "publishedOf (xs @ ys) = publishedOf xs @ publishedOf ys"
  by (induction xs rule: publishedOf.induct) auto

lemma probesOf_append: "probesOf (xs @ ys) = probesOf xs @ probesOf ys"
  by (induction xs rule: probesOf.induct) auto

lemma sleepsOf_append: "sleepsOf (xs @ ys) = sleepsOf xs @ sleepsOf ys"
  by (induction xs rule: sleepsOf.induct) auto

lemma notifiedOf_append: "notifiedOf (xs @ ys) = notifiedOf xs @ notifiedOf ys"
  by (induction xs rule: notifiedOf.induct) auto

lemma publishedOf_Notified: "publishedOf (map Notified ns) = []"
  by (induction ns) auto

lemma probesOf_Notified: "probesOf (map Notified ns) = []"
  by (induction ns) auto

lemma sleepsOf_Notified: "sleepsOf (map Notified ns) = []"
  by (induction ns) auto

lemma notifiedOf_Notified: "notifiedOf (map Notified ns) = ns"
  by (induction ns) auto

subsection \<open>The retry loop\<close>

lemma probeTrace_same: "probeTrace k k = [Probed k]"
  by (simp add: probeTrace_def)

lemma probeTrace_step:
  "a < k \<Longrightarrow> probeTrace a k = Probed a # Slept Second # probeTrace (a + 1) k"
  by (simp add: probeTrace_def upto_rec1 [of a "k - 1"])

lemma retryLoop_unfold:
  "attempt < retries \<Longrightarrow>
   retryLoop world checker service retries attempt result evs =
     (if Status (Check checker (world (nat attempt)) service) = StatusHealthy
      then (Check checker (world (nat attempt)) service, evs @ [Probed attempt])
      else retryLoop world checker service retries (attempt + 1)
             (Check checker (world (nat attempt)) service)
             (if attempt < retries - 1 then evs @ [Probed attempt, Slept Second]
              else evs @ [Probed attempt]))"
  by (subst retryLoop.simps) (simp add: Let_def)

lemma retryLoop_done:
  "\<not> attempt < retries \<Longrightarrow>
   retryLoop world checker service retries attempt result evs = (result, evs)"
  by (subst retryLoop.simps) simp

text \<open>
  A loop entered with an attempt left stops at some attempt \<open>k\<close>: no attempt before
  \<open>k\<close> was healthy, and attempt \<open>k\<close> is healthy or the last one. Its result is the
  result of attempt \<open>k\<close>.
\<close>

lemma retryLoop_stops:
  "attempt < retries \<Longrightarrow>
   \<exists>k. attempt \<le> k \<and> k < retries \<and>
       (\<forall>i. attempt \<le> i \<and> i < k \<longrightarrow>
            Status (Check checker (world (nat i)) service) \<noteq> StatusHealthy) \<and>
       (Status (Check checker (world (nat k)) service) = StatusHealthy \<or> k = retries - 1) \<and>
       retryLoop world checker service retries attempt result evs =
         (Check checker (world (nat k)) service, evs @ probeTrace attempt k)"
proof (induction world checker service retries attempt result evs rule: retryLoop.induct)
  case (1 world checker service retries attempt result evs)
  let ?r = "Check checker (world (nat attempt)) service"
  show ?case
  proof (cases "Status ?r = StatusHealthy")
    case True
    with "1.prems" show ?thesis
      by (intro exI [of _ attempt]) (auto simp: retryLoop_unfold probeTrace_same)
  next
    case unhealthy: False
    show ?thesis
    proof (cases "attempt < retries - 1")
      case True
      then have less: "attempt + 1 < retries" by simp
      from "1.IH" [OF "1.prems" refl refl unhealthy less]
      obtain k where k: "attempt + 1 \<le> k" "k < retries"
        "\<forall>i. attempt + 1 \<le> i \<and> i < k \<longrightarrow>
             Status (Check checker (world (nat i)) service) \<noteq> StatusHealthy"
        "Status (Check checker (world (nat k)) service) = StatusHealthy \<or> k = retries - 1"
        "retryLoop world checker service retries (attempt + 1) ?r
           (if attempt < retries - 1 then (evs @ [Probed attempt]) @ [Slept Second]
            else evs @ [Probed attempt]) =
         (Check checker (world (nat k)) service,
          (if attempt < retries - 1 then (evs @ [Probed attempt]) @ [Slept Second]
           else evs @ [Probed attempt]) @ probeTrace (attempt + 1) k)"
        by blast
      have before: "\<forall>i. attempt \<le> i \<and> i < k \<longrightarrow>
          Status (Check checker (world (nat i)) service) \<noteq> StatusHealthy"
      proof (intro allI impI)
        fix i assume "attempt \<le> i \<and> i < k"
        then have "i = attempt \<or> (attempt + 1 \<le> i \<and> i < k)" by auto
        with unhealthy k(3) show "Status (Check checker (world (nat i)) service) \<noteq> StatusHealthy"
          by auto
      qed
      from k(1) have "attempt < k" by simp
      then have trace:
        "probeTrace attempt k = Probed attempt # Slept Second # probeTrace (attempt + 1) k"
        by (rule probeTrace_step)
      show ?thesis
        using k(1,2,4,5) before True unhealthy "1.prems" trace
        by (intro exI [of _ k]) (auto simp: retryLoop_unfold)
    next
      case False
      with "1.prems" have last: "attempt = retries - 1" by simp
      then have "\<not> attempt + 1 < retries" by simp
      then show ?thesis
        using unhealthy "1.prems" last False
        by (intro exI [of _ attempt]) (auto simp: retryLoop_unfold retryLoop_done probeTrace_same)
    qed
  qed
qed

lemma retriesOf_pos: "0 < retriesOf m"
  by (simp add: retriesOf_def)

lemma retriesOf_max: "retriesOf m = max (RetryAttempts (Config m)) 1"
  by (simp add: retriesOf_def max_def)

lemma probesOf_probeTrace: "a \<le> k \<Longrightarrow> probesOf (probeTrace a k) = [a..k]"
proof (induction "nat (k - a)" arbitrary: a)
  case 0
  then have "a = k" by simp
  then show ?case by (simp add: probeTrace_same)
next
  case (Suc n)
  then have "a < k" by simp
  moreover from Suc have "probesOf (probeTrace (a + 1) k) = [a + 1..k]" by simp
  ultimately show ?case by (simp add: probeTrace_step upto_rec1 [of a k])
qed

lemma sleepsOf_probeTrace: "a \<le> k \<Longrightarrow> sleepsOf (probeTrace a k) = replicate (nat (k - a)) Second"
proof (induction "nat (k - a)" arbitrary: a)
  case 0
  then have "a = k" by simp
  then show ?case by (simp add: probeTrace_same)
next
  case (Suc n)
  then have less: "a < k" by simp
  from Suc have "sleepsOf (probeTrace (a + 1) k) = replicate (nat (k - (a + 1))) Second"
    by simp
  moreover from less have "nat (k - a) = Suc (nat (k - (a + 1)))" by simp
  ultimately show ?case using less by (simp add: probeTrace_step)
qed

lemma publishedOf_probeTrace: "a \<le> k \<Longrightarrow> publishedOf (probeTrace a k) = []"
proof (induction "nat (k - a)" arbitrary: a)
  case 0
  then have "a = k" by simp
  then show ?case by (simp add: probeTrace_same)
next
  case (Suc n)
  then have "a < k" by simp
  moreover from Suc have "publishedOf (probeTrace (a + 1) k) = []" by simp
  ultimately show ?case by (simp add: probeTrace_step)
qed

lemma notifiedOf_probeTrace: "a \<le> k \<Longrightarrow> notifiedOf (probeTrace a k) = []"
proof (induction "nat (k - a)" arbitrary: a)
  case 0
  then have "a = k" by simp
  then show ?case by (simp add: probeTrace_same)
next
  case (Suc n)
  then have "a < k" by simp
  moreover from Suc have "notifiedOf (probeTrace (a + 1) k) = []" by simp
  ultimately show ?case by (simp add: probeTrace_step)
qed

text \<open>
  The events of a check with a registered checker: the checking result, the attempts up
  to the one that stops the loop, the notifications of the status change, and the result
  of that attempt (unless the context was cancelled at the last \<open>select\<close>).
\<close>

lemma checkService_registered:
  assumes "\<not> doneAtChecking ctx" and "checkers m (checkerTypeOf service) = Some checker"
  shows "\<exists>k. 0 \<le> k \<and> k < retriesOf m \<and>
       (\<forall>i. 0 \<le> i \<and> i < k \<longrightarrow>
            Status (Check checker (nets ctx (nat i)) service) \<noteq> StatusHealthy) \<and>
       (Status (Check checker (nets ctx (nat k)) service) = StatusHealthy \<or> k = retriesOf m - 1) \<and>
       checkService ctx m service =
         (fst (trackStatus m (Check checker (nets ctx (nat k)) service)),
          [Published (checkingResult ctx service)] @ probeTrace 0 k @
          map Notified (snd (trackStatus m (Check checker (nets ctx (nat k)) service))) @
          (if doneAtResult ctx then []
           else [Published (Check checker (nets ctx (nat k)) service)]))"
proof -
  from retryLoop_stops [where attempt = 0 and retries = "retriesOf m" and world = "nets ctx"
      and checker = checker and service = service and result = zeroResult and evs = "[]",
      OF retriesOf_pos]
  obtain k where k: "0 \<le> k" "k < retriesOf m"
    "\<forall>i. 0 \<le> i \<and> i < k \<longrightarrow> Status (Check checker (nets ctx (nat i)) service) \<noteq> StatusHealthy"
    "Status (Check checker (nets ctx (nat k)) service) = StatusHealthy \<or> k = retriesOf m - 1"
    "retryLoop (nets ctx) checker service (retriesOf m) 0 zeroResult [] =
       (Check checker (nets ctx (nat k)) service, [] @ probeTrace 0 k)"
    by blast
  from k(5) assms have "checkService ctx m service =
         (fst (trackStatus m (Check checker (nets ctx (nat k)) service)),
          [Published (checkingResult ctx service)] @ probeTrace 0 k @
          map Notified (snd (trackStatus m (Check checker (nets ctx (nat k)) service))) @
          (if doneAtResult ctx then []
           else [Published (Check checker (nets ctx (nat k)) service)]))"
    by (simp add: checkService_def split: prod.splits)
  with k(1-4) show ?thesis by blast
qed

lemma checkService_unregistered:
  assumes "\<not> doneAtChecking ctx" and "checkers m (checkerTypeOf service) = None"
  shows "checkService ctx m service =
    (m, [Published (checkingResult ctx service), Published (unknownResult ctx service)])"
  using assms by (simp add: checkService_def)

lemma checkService_cancelled: "doneAtChecking ctx \<Longrightarrow> checkService ctx m service = (m, [])"
  by (simp add: checkService_def)

subsection \<open>Adding a service to the configuration\<close>

lemma hasName_iff: "hasName n ss \<longleftrightarrow> (\<exists>s \<in> set ss. Name s = n)"
  by (induction ss) auto

text \<open>
  Claim C10. \<open>Config.AddService\<close> returns an error exactly when a service of the same
  name is already configured, and then leaves the configuration as it was. Otherwise it
  appends the service at the end and changes nothing else; names that were distinct
  stay distinct.
\<close>

theorem AddService_spec:
  "(fst (AddService c service) \<noteq> None \<longleftrightarrow> (\<exists>s \<in> set (Services c). Name s = Name service)) \<and>
   (fst (AddService c service) \<noteq> None \<longrightarrow>
      fst (AddService c service) = Some (ServiceExists (Name service)) \<and>
      snd (AddService c service) = c) \<and>
   (fst (AddService c service) = None \<longrightarrow>
      snd (AddService c service) = c\<lparr>Services := Services c @ [service]\<rparr>) \<and>
   (distinct (map Name (Services c)) \<longrightarrow>
      distinct (map Name (Services (snd (AddService c service)))))"
  by (auto simp: AddService_def hasName_iff image_iff)

theorem AddService_spec_witness:
  "fst (AddService defaultConfig testService) = None \<and>
   Services (snd (AddService defaultConfig testService)) = [exampleService, testService] \<and>
   distinct (map Name (Services (snd (AddService defaultConfig testService)))) \<and>
   fst (AddService defaultConfig exampleService) = Some (ServiceExists ''example-api'') \<and>
   snd (AddService defaultConfig exampleService) = defaultConfig"
  using AddService_spec [of defaultConfig testService]
    AddService_spec [of defaultConfig exampleService]
  by (simp add: defaultConfig_def testService_def exampleService_def)

subsection \<open>Errors and statuses of results\<close>

lemma statusMismatch_Check:
  assumes "isHTTP c" and "statusMismatch net service"
  shows "Status (Check c net service) = StatusUnhealthy"
    and "Error (Check c net service) = None"
    and "Message (Check c net service) =
      ''Expected '' @ fmt_d (expectedStatusOf service) @ '', got '' @
      fmt_d (StatusCode (Check c net service))"
  using assms
  by (cases c;
      auto simp: Check_defs Let_def isHTTP_def statusMismatch_def
        split: option.splits sum.splits list.splits)+

lemma checkService_published:
  assumes "r \<in> set (publishedOf (snd (checkService ctx m service)))"
    and "Status r \<noteq> StatusChecking"
  shows "(checkers m (checkerTypeOf service) = None \<and> r = unknownResult ctx service) \<or>
    (\<exists>c k. checkers m (checkerTypeOf service) = Some c \<and> r = Check c (nets ctx k) service)"
proof (cases "doneAtChecking ctx")
  case True
  with assms show ?thesis by (simp add: checkService_cancelled)
next
  case False
  show ?thesis
  proof (cases "checkers m (checkerTypeOf service)")
    case None
    with False assms show ?thesis
      by (auto simp: checkService_unregistered checkingResult_def)
  next
    case (Some checker)
    from checkService_registered [OF False Some]
    obtain k where "0 \<le> k" and "checkService ctx m service =
         (fst (trackStatus m (Check checker (nets ctx (nat k)) service)),
          [Published (checkingResult ctx service)] @ probeTrace 0 k @
          map Notified (snd (trackStatus m (Check checker (nets ctx (nat k)) service))) @
          (if doneAtResult ctx then []
           else [Published (Check checker (nets ctx (nat k)) service)]))"
      by blast
    with assms Some show ?thesis
      by (auto simp: publishedOf_append publishedOf_probeTrace publishedOf_Notified
          checkingResult_def split: if_splits)
  qed
qed

text \<open>
  Claim C1, as amended. A result of a checker's \<open>Check\<close> has an error exactly when its
  status is not healthy and it is not the HTTP checker's result for a status code other
  than the expected one; that result is unhealthy with no error and the message
  \<open>Expected <expected>, got <actual>\<close>. The same holds of every terminal result that
  \<open>checkService\<close> publishes.
\<close>

theorem Result_Error_iff:
  "(Error (Check c net service) \<noteq> None \<longleftrightarrow>
      Status (Check c net service) \<noteq> StatusHealthy \<and>
      \<not> (isHTTP c \<and> statusMismatch net service)) \<and>
   (isHTTP c \<and> statusMismatch net service \<longrightarrow>
      Status (Check c net service) = StatusUnhealthy \<and>
      Message (Check c net service) =
        ''Expected '' @ fmt_d (expectedStatusOf service) @ '', got '' @
        fmt_d (StatusCode (Check c net service))) \<and>
   (\<forall>r \<in> set (publishedOf (snd (checkService ctx m service))).
      Status r \<noteq> StatusChecking \<longrightarrow>
        (Error r \<noteq> None \<longleftrightarrow>
           Status r \<noteq> StatusHealthy \<and>
           \<not> (\<exists>c k. checkers m (checkerTypeOf service) = Some c \<and> isHTTP c \<and>
                  statusMismatch (nets ctx k) service \<and> r = Check c (nets ctx k) service)))"
proof (intro conjI ballI impI)
  show "Error (Check c net service) \<noteq> None \<longleftrightarrow>
      Status (Check c net service) \<noteq> StatusHealthy \<and>
      \<not> (isHTTP c \<and> statusMismatch net service)"
    by (rule Check_Error)
next
  assume "isHTTP c \<and> statusMismatch net service"
  then show "Status (Check c net service) = StatusUnhealthy"
    by (simp add: statusMismatch_Check)
next
  assume "isHTTP c \<and> statusMismatch net service"
  then show "Message (Check c net service) =
        ''Expected '' @ fmt_d (expectedStatusOf service) @ '', got '' @
        fmt_d (StatusCode (Check c net service))"
    using statusMismatch_Check(3) by blast
next
  fix r
  assume r: "r \<in> set (publishedOf (snd (checkService ctx m service)))"
    and terminal: "Status r \<noteq> StatusChecking"
  let ?mismatch = "\<exists>c k. checkers m (checkerTypeOf service) = Some c \<and> isHTTP c \<and>
      statusMismatch (nets ctx k) service \<and> r = Check c (nets ctx k) service"
  from checkService_published [OF r terminal]
  show "Error r \<noteq> None \<longleftrightarrow> Status r \<noteq> StatusHealthy \<and> \<not> ?mismatch"
  proof
    assume "checkers m (checkerTypeOf service) = None \<and> r = unknownResult ctx service"
    then show ?thesis by (auto simp: unknownResult_def Status_defs)
  next
    assume "\<exists>c k. checkers m (checkerTypeOf service) = Some c \<and> r = Check c (nets ctx k) service"
    then obtain c k where c: "checkers m (checkerTypeOf service) = Some c"
      and k: "r = Check c (nets ctx k) service" by blast
    have "?mismatch \<longleftrightarrow> isHTTP c \<and> statusMismatch (nets ctx k) service"
    proof
      assume ?mismatch
      then obtain k' where http: "isHTTP c" and k': "statusMismatch (nets ctx k') service"
        "r = Check c (nets ctx k') service"
        using c by auto
      from statusMismatch_Check(1,2) [OF http k'(1)] k'(2)
      have "Status r = StatusUnhealthy" "Error r = None" by simp_all
      with Check_Error [of c "nets ctx k" service] k http
      show "isHTTP c \<and> statusMismatch (nets ctx k) service"
        by (auto simp: Status_defs)
    next
      assume "isHTTP c \<and> statusMismatch (nets ctx k) service"
      with c k show ?mismatch by blast
    qed
    with Check_Error [of c "nets ctx k" service] k show ?thesis by simp
  qed
qed

theorem Result_Error_iff_witness:
  "isHTTP (HTTPChecker (5 * Second)) \<and> statusMismatch notFoundNet exampleService \<and>
   Status (Check (HTTPChecker (5 * Second)) notFoundNet exampleService) = StatusUnhealthy \<and>
   Message (Check (HTTPChecker (5 * Second)) notFoundNet exampleService) = ''Expected 200, got 404'' \<and>
   Error (Check (HTTPChecker (5 * Second)) notFoundNet exampleService) = None \<and>
   Error (Check (HTTPChecker (5 * Second)) refusedNet exampleService) =
     Some (LibError ''connection refused'') \<and>
   publishedOf (snd (checkService exampleCtx exampleMonitor exampleService)) =
     [checkingResult exampleCtx exampleService,
      Check (HTTPChecker (5 * Second)) quietNet exampleService] \<and>
   Status (Check (HTTPChecker (5 * Second)) quietNet exampleService) = StatusHealthy \<and>
   Error (Check (HTTPChecker (5 * Second)) quietNet exampleService) = None"
  using Result_Error_iff [of "HTTPChecker (5 * Second)" notFoundNet exampleService
      exampleCtx exampleMonitor]
    Result_Error_iff [of "HTTPChecker (5 * Second)" refusedNet exampleService
      exampleCtx exampleMonitor]
  by (simp add: checkService_def exampleMonitor_def NewMonitor_def exampleParseDuration_def
      defaultConfig_def Start_serviceStatuses_def exampleCtx_def checkerTypeOf_def
      exampleService_def retriesOf_def retryLoop_unfold retryLoop_done HTTPChecker_Check_def
      failTwice_def refusedNet_def notFoundNet_def quietNet_def newResult_def Status_defs
      expectedStatusOf_def trackStatus_def NotifyStatusChange_def checkingResult_def fmt_d_def
      digit_def isHTTP_def statusMismatch_def)

text \<open>
  The claim as it was stated fails: the HTTP checker's result for a 404 where 200 is
  expected is not healthy and has no error.
\<close>

theorem Result_Error_iff_counterexample:
  "\<not> (Error (Check (HTTPChecker (5 * Second)) notFoundNet exampleService) \<noteq> None \<longleftrightarrow>
      Status (Check (HTTPChecker (5 * Second)) notFoundNet exampleService) \<noteq> StatusHealthy)"
  by (simp add: HTTPChecker_Check_def notFoundNet_def quietNet_def exampleService_def
      newResult_def Status_defs expectedStatusOf_def)

subsection \<open>The retry policy\<close>

text \<open>
  Claim C3. A check with a registered checker, once dispatched, makes its attempts one
  after the other and stops at an attempt \<open>k\<close> below \<open>max r 1\<close>, where \<open>r\<close> is
  \<open>RetryAttempts\<close>: no attempt before \<open>k\<close> was healthy, and attempt \<open>k\<close> is healthy or
  the last one. The events are the checking result, the attempts \<open>0\<close> to \<open>k\<close> with a
  sleep of one second after each attempt but the last, the notifications, and the
  result of attempt \<open>k\<close>, which is the terminal result published.
\<close>

theorem checkService_retry:
  assumes "\<not> doneAtChecking ctx" and "checkers m (checkerTypeOf service) = Some checker"
  shows "\<exists>k notifications. 0 \<le> k \<and> k < max (RetryAttempts (Config m)) 1 \<and>
       (\<forall>i. 0 \<le> i \<and> i < k \<longrightarrow>
            Status (Check checker (nets ctx (nat i)) service) \<noteq> StatusHealthy) \<and>
       (Status (Check checker (nets ctx (nat k)) service) = StatusHealthy \<or>
        k = max (RetryAttempts (Config m)) 1 - 1) \<and>
       snd (checkService ctx m service) =
         [Published (checkingResult ctx service)] @ probeTrace 0 k @
         map Notified notifications @
         (if doneAtResult ctx then []
          else [Published (Check checker (nets ctx (nat k)) service)]) \<and>
       probesOf (snd (checkService ctx m service)) = [0..k] \<and>
       int (length (probesOf (snd (checkService ctx m service)))) \<le>
         max (RetryAttempts (Config m)) 1 \<and>
       sleepsOf (snd (checkService ctx m service)) = replicate (nat k) Second"
proof -
  from checkService_registered [OF assms]
  obtain k where k: "0 \<le> k" "k < retriesOf m"
    "\<forall>i. 0 \<le> i \<and> i < k \<longrightarrow> Status (Check checker (nets ctx (nat i)) service) \<noteq> StatusHealthy"
    "Status (Check checker (nets ctx (nat k)) service) = StatusHealthy \<or> k = retriesOf m - 1"
    and events: "checkService ctx m service =
         (fst (trackStatus m (Check checker (nets ctx (nat k)) service)),
          [Published (checkingResult ctx service)] @ probeTrace 0 k @
          map Notified (snd (trackStatus m (Check checker (nets ctx (nat k)) service))) @
          (if doneAtResult ctx then []
           else [Published (Check checker (nets ctx (nat k)) service)]))"
    by blast
  have probes: "probesOf (snd (checkService ctx m service)) = [0..k]"
    using k(1) by (simp add: events probesOf_append probesOf_probeTrace probesOf_Notified)
  have sleeps: "sleepsOf (snd (checkService ctx m service)) = replicate (nat k) Second"
    using k(1) by (simp add: events sleepsOf_append sleepsOf_probeTrace sleepsOf_Notified)
  have count: "int (length (probesOf (snd (checkService ctx m service)))) \<le> retriesOf m"
    using k(1,2) by (simp add: probes)
  show ?thesis
    using k events probes sleeps count unfolding retriesOf_max
    by (intro exI [of _ k]
        exI [of _ "snd (trackStatus m (Check checker (nets ctx (nat k)) service))"]) simp
qed

lemma exampleMonitor_http:
  "checkers exampleMonitor (checkerTypeOf exampleService) = Some (HTTPChecker (5 * Second))"
  by (simp add: exampleMonitor_def NewMonitor_def exampleParseDuration_def defaultConfig_def
      Start_serviceStatuses_def checkerTypeOf_def exampleService_def)

lemma exampleCtx_dispatched: "\<not> doneAtChecking exampleCtx"
  by (simp add: exampleCtx_def)

lemma exampleCtx_not_cancelled: "\<not> doneAtResult exampleCtx"
  by (simp add: exampleCtx_def)

lemmas example_defs = checkService_def exampleMonitor_def NewMonitor_def
  exampleParseDuration_def defaultConfig_def Start_serviceStatuses_def exampleCtx_def
  checkerTypeOf_def exampleService_def retriesOf_def retryLoop_unfold retryLoop_done
  HTTPChecker_Check_def failTwice_def alwaysNotFound_def refusedNet_def notFoundNet_def
  quietNet_def newResult_def Status_defs expectedStatusOf_def trackStatus_def
  NotifyStatusChange_def NotifyFailure_def NotifyRecovery_def checkingResult_def
  unknownResult_def fmt_d_def digit_def

theorem checkService_retry_witness:
  "\<not> doneAtChecking exampleCtx \<and>
   checkers exampleMonitor (checkerTypeOf exampleService) = Some (HTTPChecker (5 * Second)) \<and>
   RetryAttempts (Config exampleMonitor) = 3 \<and>
   snd (checkService exampleCtx exampleMonitor exampleService) =
     [Published (checkingResult exampleCtx exampleService),
      Probed 0, Slept Second, Probed 1, Slept Second, Probed 2,
      Published (Check (HTTPChecker (5 * Second)) quietNet exampleService)] \<and>
   Status (Check (HTTPChecker (5 * Second)) quietNet exampleService) = StatusHealthy"
  using checkService_retry [OF exampleCtx_dispatched exampleMonitor_http]
  by (simp add: example_defs)

subsection \<open>A service whose check type has no checker\<close>

text \<open>\<open>NewMonitor\<close> registers a checker for exactly five check types.\<close>

lemma NewMonitor_checkers:
  assumes "NewMonitor ParseDuration cfg = Inr m"
  shows "checkers m t = None \<longleftrightarrow>
    t \<noteq> ''http'' \<and> t \<noteq> ''tcp'' \<and> t \<noteq> ''tls'' \<and> t \<noteq> ''dns'' \<and> t \<noteq> ''latency''"
  using assms by (auto simp: NewMonitor_def split: sum.splits)

text \<open>
  Claim C5. For a service whose check type (\<open>http\<close> when empty) has no registered
  checker, a dispatched check publishes, after the checking result, exactly one terminal
  result: status unknown, with the \<open>unknown checker type\<close> error naming the type. It
  makes no attempt, does not sleep, notifies nobody and leaves the tracked statuses as
  they were.
\<close>

theorem checkService_unknown_type:
  assumes "\<not> doneAtChecking ctx" and "checkers m (checkerTypeOf service) = None"
  shows "snd (checkService ctx m service) =
       [Published (checkingResult ctx service), Published (unknownResult ctx service)] \<and>
     filter (\<lambda>r. Status r \<noteq> StatusChecking) (publishedOf (snd (checkService ctx m service))) =
       [unknownResult ctx service] \<and>
     Status (unknownResult ctx service) = StatusUnknown \<and>
     Error (unknownResult ctx service) =
       Some (UnknownCheckerType (if Type service = [] then ''http'' else Type service)) \<and>
     probesOf (snd (checkService ctx m service)) = [] \<and>
     sleepsOf (snd (checkService ctx m service)) = [] \<and>
     notifiedOf (snd (checkService ctx m service)) = [] \<and>
     fst (checkService ctx m service) = m"
  using assms
  by (simp add: checkService_unregistered unknownResult_def checkingResult_def
      checkerTypeOf_def Status_defs)

lemma exampleMonitor_redis:
  "checkers exampleMonitor (checkerTypeOf (exampleService\<lparr>Type := ''redis''\<rparr>)) = None"
  by (simp add: exampleMonitor_def NewMonitor_def exampleParseDuration_def defaultConfig_def
      Start_serviceStatuses_def checkerTypeOf_def exampleService_def)

theorem checkService_unknown_type_witness:
  "\<not> doneAtChecking exampleCtx \<and>
   checkers exampleMonitor (checkerTypeOf (exampleService\<lparr>Type := ''redis''\<rparr>)) = None \<and>
   snd (checkService exampleCtx exampleMonitor (exampleService\<lparr>Type := ''redis''\<rparr>)) =
     [Published (checkingResult exampleCtx (exampleService\<lparr>Type := ''redis''\<rparr>)),
      Published (unknownResult exampleCtx (exampleService\<lparr>Type := ''redis''\<rparr>))] \<and>
   Error (unknownResult exampleCtx (exampleService\<lparr>Type := ''redis''\<rparr>)) =
     Some (UnknownCheckerType ''redis'')"
  using checkService_unknown_type [OF exampleCtx_dispatched exampleMonitor_redis]
    exampleCtx_dispatched exampleMonitor_redis
  by (simp add: exampleService_def)

subsection \<open>The results published by one check\<close>

text \<open>
  Claim C9. A check that is not cancelled publishes first the checking result, before
  any other event, and last one terminal result, whose status is healthy, unhealthy or
  unknown and not checking; it publishes nothing in between.
\<close>

theorem checkService_published_sequence:
  assumes "\<not> doneAtChecking ctx" and "\<not> doneAtResult ctx"
  shows "\<exists>between r.
       snd (checkService ctx m service) =
         Published (checkingResult ctx service) # between @ [Published r] \<and>
       publishedOf between = [] \<and>
       publishedOf (snd (checkService ctx m service)) = [checkingResult ctx service, r] \<and>
       Status (checkingResult ctx service) = StatusChecking \<and>
       (Status r = StatusHealthy \<or> Status r = StatusUnhealthy \<or> Status r = StatusUnknown) \<and>
       Status r \<noteq> StatusChecking"
proof (cases "checkers m (checkerTypeOf service)")
  case None
  with assms(1) show ?thesis
    by (intro exI [of _ "[]"] exI [of _ "unknownResult ctx service"])
      (simp add: checkService_unregistered unknownResult_def checkingResult_def Status_defs)
next
  case (Some checker)
  from checkService_registered [OF assms(1) Some]
  obtain k where k: "0 \<le> k" and events: "checkService ctx m service =
         (fst (trackStatus m (Check checker (nets ctx (nat k)) service)),
          [Published (checkingResult ctx service)] @ probeTrace 0 k @
          map Notified (snd (trackStatus m (Check checker (nets ctx (nat k)) service))) @
          (if doneAtResult ctx then []
           else [Published (Check checker (nets ctx (nat k)) service)]))"
    by blast
  let ?r = "Check checker (nets ctx (nat k)) service"
  let ?between = "probeTrace 0 k @ map Notified (snd (trackStatus m ?r))"
  have "snd (checkService ctx m service) =
      Published (checkingResult ctx service) # ?between @ [Published ?r]"
    using assms(2) by (simp add: events)
  moreover have "publishedOf ?between = []"
    using k by (simp add: publishedOf_append publishedOf_probeTrace publishedOf_Notified)
  moreover have "Status (checkingResult ctx service) = StatusChecking"
    by (simp add: checkingResult_def)
  moreover have "Status ?r = StatusHealthy \<or> Status ?r = StatusUnhealthy \<or> Status ?r = StatusUnknown"
    using Check_Status [of checker "nets ctx (nat k)" service] by blast
  moreover have "Status ?r \<noteq> StatusChecking"
    by (rule Check_not_checking)
  ultimately show ?thesis
    by (intro exI [of _ ?between] exI [of _ ?r]) (simp add: publishedOf_append)
qed

theorem checkService_published_sequence_witness:
  "\<not> doneAtChecking exampleCtx \<and> \<not> doneAtResult exampleCtx \<and>
   publishedOf (snd (checkService exampleCtx exampleMonitor exampleService)) =
     [checkingResult exampleCtx exampleService,
      Check (HTTPChecker (5 * Second)) quietNet exampleService] \<and>
   Status (checkingResult exampleCtx exampleService) = StatusChecking \<and>
   Status (Check (HTTPChecker (5 * Second)) quietNet exampleService) = StatusHealthy"
  using checkService_published_sequence [OF exampleCtx_dispatched exampleCtx_not_cancelled,
      of exampleMonitor exampleService]
  by (simp add: example_defs)

subsection \<open>Notification of status changes\<close>

lemma fold_statuses:
  "fold (\<lambda>service statuses. statuses(Name service \<mapsto> StatusUnknown)) ss st n =
     (if n \<in> Name ` set ss then Some StatusUnknown else st n)"
  by (induction ss arbitrary: st) auto

text \<open>\<open>Start\<close> initialises the tracked status of every configured service to unknown.\<close>

lemma Start_serviceStatuses_unknown:
  "service \<in> set (Services (Config m)) \<Longrightarrow>
   serviceStatuses (Start_serviceStatuses m) (Name service) = Some StatusUnknown"
  by (simp add: Start_serviceStatuses_def fold_statuses)

lemma Status_distinct:
  "StatusHealthy \<noteq> StatusUnhealthy" "StatusHealthy \<noteq> StatusUnknown"
  "StatusHealthy \<noteq> StatusChecking" "StatusUnhealthy \<noteq> StatusUnknown"
  "StatusUnhealthy \<noteq> StatusChecking" "StatusUnknown \<noteq> StatusChecking"
  "StatusUnhealthy \<noteq> StatusHealthy" "StatusUnknown \<noteq> StatusHealthy"
  "StatusChecking \<noteq> StatusHealthy" "StatusUnknown \<noteq> StatusUnhealthy"
  "StatusChecking \<noteq> StatusUnhealthy" "StatusChecking \<noteq> StatusUnknown"
  by (simp_all add: Status_defs)

lemma NotifyStatusChange_enabled:
  "enabled n \<Longrightarrow>
   NotifyStatusChange n result previous =
     (if Status result = StatusHealthy \<and> previous = StatusUnhealthy
      then [RecoveryNotification (ServiceName result) (ResponseTime result)]
      else if Status result = StatusUnhealthy \<and>
              (previous = StatusHealthy \<or> previous = StatusUnknown)
      then [FailureNotification (ServiceName result) (Message result) (Error result)]
      else [])"
  by (simp add: NotifyStatusChange_def NotifyFailure_def NotifyRecovery_def Status_defs)

lemma trackStatus_previous:
  "serviceStatuses m (ServiceName result) = Some previous \<Longrightarrow>
   snd (trackStatus m result) =
     (if previous \<noteq> Status result \<and> Status result \<noteq> StatusChecking \<and>
         ((previous \<noteq> StatusUnknown \<and> previous \<noteq> StatusChecking) \<or>
          (Status result = StatusHealthy \<or> Status result = StatusUnhealthy))
      then NotifyStatusChange (notifier m) result previous else [])"
  by (simp add: trackStatus_def Let_def)

lemma trackStatus_notifications:
  assumes "enabled (notifier m)"
    and "serviceStatuses m (ServiceName result) = Some previous"
    and "isStatus previous"
  shows "length (snd (trackStatus m result)) =
    (if notifiable previous (Status result) then 1 else 0)"
proof -
  from assms(3) consider "previous = StatusHealthy" | "previous = StatusUnhealthy"
    | "previous = StatusUnknown" | "previous = StatusChecking"
    by (auto simp: isStatus_def)
  then show ?thesis
  proof cases
    case 1
    then show ?thesis
      using Status_distinct
      by (auto simp: trackStatus_previous [OF assms(2)] NotifyStatusChange_enabled [OF assms(1)]
          notifiable_def)
  next
    case 2
    then show ?thesis
      using Status_distinct
      by (auto simp: trackStatus_previous [OF assms(2)] NotifyStatusChange_enabled [OF assms(1)]
          notifiable_def)
  next
    case 3
    then show ?thesis
      using Status_distinct
      by (auto simp: trackStatus_previous [OF assms(2)] NotifyStatusChange_enabled [OF assms(1)]
          notifiable_def)
  next
    case 4
    then show ?thesis
      using Status_distinct
      by (auto simp: trackStatus_previous [OF assms(2)] NotifyStatusChange_enabled [OF assms(1)]
          notifiable_def)
  qed
qed

lemma trackStatus_statuses:
  "serviceStatuses (fst (trackStatus m result)) =
     (serviceStatuses m)(ServiceName result \<mapsto> Status result)"
  by (simp add: trackStatus_def Let_def)

text \<open>
  Let the notifier be enabled, as \<open>NewMonitor\<close> builds it, and let the service have a
  tracked previous status, one of the four statuses. Tracking a result sends
  exactly one notification when the transition from the previous status to the result's
  status is notifiable, and none otherwise; it records the result's status. A dispatched
  check sends the notifications of its terminal result, whose status is not checking;
  the terminal result of an unregistered check type is unknown and notifies nobody.
\<close>

theorem notification_on_transition:
  assumes "enabled (notifier m)"
    and "serviceStatuses m (Name service) = Some previous"
    and "isStatus previous"
  shows "(ServiceName result = Name service \<longrightarrow>
       length (snd (trackStatus m result)) =
         (if notifiable previous (Status result) then 1 else 0) \<and>
       serviceStatuses (fst (trackStatus m result)) (Name service) = Some (Status result)) \<and>
     (\<not> doneAtChecking ctx \<longrightarrow>
       (\<exists>r. (\<not> doneAtResult ctx \<longrightarrow>
               publishedOf (snd (checkService ctx m service)) =
                 [checkingResult ctx service, r]) \<and>
            Status r \<noteq> StatusChecking \<and>
            length (notifiedOf (snd (checkService ctx m service))) =
              (if notifiable previous (Status r) then 1 else 0)))"
proof (intro conjI impI)
  assume name: "ServiceName result = Name service"
  with assms show "length (snd (trackStatus m result)) =
      (if notifiable previous (Status result) then 1 else 0)"
    by (simp add: trackStatus_notifications)
  from name show "serviceStatuses (fst (trackStatus m result)) (Name service) =
      Some (Status result)"
    by (simp add: trackStatus_statuses)
next
  assume dispatched: "\<not> doneAtChecking ctx"
  show "\<exists>r. (\<not> doneAtResult ctx \<longrightarrow>
               publishedOf (snd (checkService ctx m service)) =
                 [checkingResult ctx service, r]) \<and>
            Status r \<noteq> StatusChecking \<and>
            length (notifiedOf (snd (checkService ctx m service))) =
              (if notifiable previous (Status r) then 1 else 0)"
  proof (cases "checkers m (checkerTypeOf service)")
    case None
    with dispatched show ?thesis
      by (intro exI [of _ "unknownResult ctx service"])
        (simp add: checkService_unregistered unknownResult_def notifiable_def Status_defs)
  next
    case (Some checker)
    from checkService_registered [OF dispatched Some]
    obtain k where k: "0 \<le> k" and events: "checkService ctx m service =
         (fst (trackStatus m (Check checker (nets ctx (nat k)) service)),
          [Published (checkingResult ctx service)] @ probeTrace 0 k @
          map Notified (snd (trackStatus m (Check checker (nets ctx (nat k)) service))) @
          (if doneAtResult ctx then []
           else [Published (Check checker (nets ctx (nat k)) service)]))"
      by blast
    let ?r = "Check checker (nets ctx (nat k)) service"
    have "notifiedOf (snd (checkService ctx m service)) = snd (trackStatus m ?r)"
      using k by (simp add: events notifiedOf_append notifiedOf_probeTrace notifiedOf_Notified)
    moreover have "length (snd (trackStatus m ?r)) =
        (if notifiable previous (Status ?r) then 1 else 0)"
      using assms by (simp add: trackStatus_notifications Check_ServiceName)
    moreover have "\<not> doneAtResult ctx \<longrightarrow>
        publishedOf (snd (checkService ctx m service)) = [checkingResult ctx service, ?r]"
      using k
      by (simp add: events publishedOf_append publishedOf_probeTrace publishedOf_Notified)
    moreover have "Status ?r \<noteq> StatusChecking"
      by (rule Check_not_checking)
    ultimately show ?thesis
      by (intro exI [of _ ?r]) simp
  qed
qed

lemma exampleMonitor_enabled: "enabled (notifier exampleMonitor)"
  by (simp add: exampleMonitor_def NewMonitor_def exampleParseDuration_def defaultConfig_def
      Start_serviceStatuses_def)

lemma exampleMonitor_unknown:
  "serviceStatuses exampleMonitor (Name exampleService) = Some StatusUnknown"
  by (simp add: exampleMonitor_def NewMonitor_def exampleParseDuration_def defaultConfig_def
      Start_serviceStatuses_def)

lemma isStatus_unknown: "isStatus StatusUnknown"
  by (simp add: isStatus_def)

theorem notification_on_transition_witness:
  "enabled (notifier exampleMonitor) \<and>
   serviceStatuses exampleMonitor (Name exampleService) = Some StatusUnknown \<and>
   isStatus StatusUnknown \<and>
   \<not> doneAtChecking (exampleCtx\<lparr>nets := alwaysNotFound\<rparr>) \<and>
   ServiceName (Check (HTTPChecker (5 * Second)) notFoundNet exampleService) =
     Name exampleService \<and>
   notifiable StatusUnknown
     (Status (Check (HTTPChecker (5 * Second)) notFoundNet exampleService)) \<and>
   length (snd (trackStatus exampleMonitor
     (Check (HTTPChecker (5 * Second)) notFoundNet exampleService))) = 1 \<and>
   notifiedOf (snd (checkService (exampleCtx\<lparr>nets := alwaysNotFound\<rparr>) exampleMonitor
     exampleService)) =
     [FailureNotification ''example-api'' ''Expected 200, got 404'' None] \<and>
   \<not> notifiable StatusUnknown
     (Status (Check (HTTPChecker (5 * Second)) quietNet exampleService)) \<and>
   notifiedOf (snd (checkService exampleCtx exampleMonitor exampleService)) = []"
  using notification_on_transition [OF exampleMonitor_enabled exampleMonitor_unknown
      isStatus_unknown,
      of "Check (HTTPChecker (5 * Second)) notFoundNet exampleService"
        "exampleCtx\<lparr>nets := alwaysNotFound\<rparr>"]
  by (simp add: example_defs notifiable_def isStatus_def)

text \<open>
  \<open>Start\<close> initialises the statuses of the services configured when it runs. A service
  checked through \<open>Monitor.AddService\<close> without a tracked status has the empty previous
  status, and its failure sends no notification.
\<close>

lemma trackStatus_untracked:
  assumes "enabled (notifier m)" and "serviceStatuses m (ServiceName result) = None"
    and "Status result = StatusUnhealthy"
  shows "snd (trackStatus m result) = []"
  using assms
  by (simp add: trackStatus_def NotifyStatusChange_def Status_defs Let_def)

text \<open>
  Claim C4, at a service added while the monitor runs. \<open>Start\<close> has initialised the
  status of the configured service to unknown, \<open>so first failure triggers a
  notification\<close>; the service added through the form of the dashboard has no tracked
  status, its previous status is the empty string. Its first check fails with
  \<open>Expected 200, got 404\<close>: the terminal result is unhealthy, the transition from the
  empty status into unhealthy sends no notification, and the status recorded is unhealthy,
  so that the next failing check sends none either. The same failure of the configured
  service sends the failure notification.
\<close>

theorem AddService_first_failure:
  "fst (AddService (Config exampleMonitor) testService) = None \<and>
   Services (Config addedMonitor) = [exampleService, testService] \<and>
   enabled (notifier addedMonitor) \<and>
   serviceStatuses addedMonitor (Name exampleService) = Some StatusUnknown \<and>
   serviceStatuses addedMonitor (Name testService) = None \<and>
   publishedOf (snd (Monitor_AddService (exampleCtx\<lparr>nets := alwaysNotFound\<rparr>) addedMonitor
     testService)) =
     [checkingResult (exampleCtx\<lparr>nets := alwaysNotFound\<rparr>) testService,
      Check (HTTPChecker (5 * Second)) notFoundNet testService] \<and>
   Status (Check (HTTPChecker (5 * Second)) notFoundNet testService) = StatusUnhealthy \<and>
   Message (Check (HTTPChecker (5 * Second)) notFoundNet testService) =
     ''Expected 200, got 404'' \<and>
   notifiable [] StatusUnhealthy \<and>
   notifiedOf (snd (Monitor_AddService (exampleCtx\<lparr>nets := alwaysNotFound\<rparr>) addedMonitor
     testService)) = [] \<and>
   serviceStatuses (fst (Monitor_AddService (exampleCtx\<lparr>nets := alwaysNotFound\<rparr>)
     addedMonitor testService)) (Name testService) = Some StatusUnhealthy \<and>
   notifiedOf (snd (checkService (exampleCtx\<lparr>nets := alwaysNotFound\<rparr>)
     (fst (Monitor_AddService (exampleCtx\<lparr>nets := alwaysNotFound\<rparr>) addedMonitor
        testService)) testService)) = [] \<and>
   notifiedOf (snd (checkService (exampleCtx\<lparr>nets := alwaysNotFound\<rparr>) addedMonitor
     exampleService)) =
     [FailureNotification ''example-api'' ''Expected 200, got 404'' None]"
  by code_simp

subsection \<open>Unparsable durations\<close>

text \<open>
  Claim C2, as amended. An unparsable check interval makes \<open>Start\<close> use 30 seconds. An
  unparsable timeout makes \<open>NewMonitor\<close> return the \<open>invalid timeout duration\<close> error:
  there is no fallback to 5 seconds. \<open>NewMonitor\<close> succeeds when the timeout parses,
  whatever the check interval is.
\<close>

theorem unparsable_durations:
  "(ParseDuration (CheckInterval (Config m)) = Inl e \<longrightarrow>
      Start_checkInterval ParseDuration m = 30 * Second) \<and>
   (ParseDuration (Timeout cfg) = Inl e \<longrightarrow>
      NewMonitor ParseDuration cfg = Inl (InvalidTimeout e)) \<and>
   (ParseDuration (Timeout cfg) = Inr timeout \<longrightarrow>
      (\<exists>m'. NewMonitor ParseDuration cfg = Inr m' \<and> Config m' = cfg \<and>
            checkers m' ''http'' = Some (HTTPChecker timeout)))"
  by (simp add: Start_checkInterval_def NewMonitor_def)

theorem unparsable_durations_witness:
  "exampleParseDuration (CheckInterval (Config
      (projr (NewMonitor exampleParseDuration (defaultConfig\<lparr>CheckInterval := ''abc''\<rparr>))))) =
     Inl (LibError ''time: invalid duration'') \<and>
   Start_checkInterval exampleParseDuration
      (projr (NewMonitor exampleParseDuration (defaultConfig\<lparr>CheckInterval := ''abc''\<rparr>))) =
     30 * Second \<and>
   exampleParseDuration (Timeout (defaultConfig\<lparr>Timeout := ''abc''\<rparr>)) =
     Inl (LibError ''time: invalid duration'') \<and>
   NewMonitor exampleParseDuration (defaultConfig\<lparr>Timeout := ''abc''\<rparr>) =
     Inl (InvalidTimeout (LibError ''time: invalid duration'')) \<and>
   exampleParseDuration (Timeout (defaultConfig\<lparr>CheckInterval := ''abc''\<rparr>)) =
     Inr (5 * Second) \<and>
   Config (projr (NewMonitor exampleParseDuration (defaultConfig\<lparr>CheckInterval := ''abc''\<rparr>))) =
     defaultConfig\<lparr>CheckInterval := ''abc''\<rparr>"
  using unparsable_durations [of exampleParseDuration
      "projr (NewMonitor exampleParseDuration (defaultConfig\<lparr>CheckInterval := ''abc''\<rparr>))"
      "LibError ''time: invalid duration''" "defaultConfig\<lparr>Timeout := ''abc''\<rparr>"]
    unparsable_durations [of exampleParseDuration exampleMonitor
      "LibError ''time: invalid duration''" "defaultConfig\<lparr>CheckInterval := ''abc''\<rparr>"
      "5 * Second"]
  by (simp add: exampleParseDuration_def defaultConfig_def NewMonitor_def
      Start_checkInterval_def)

text \<open>
  The claim as it was stated fails: for the unparsable timeout \<open>abc\<close>, \<open>NewMonitor\<close>
  returns an error.
\<close>

theorem unparsable_durations_counterexample:
  "exampleParseDuration ''abc'' = Inl (LibError ''time: invalid duration'') \<and>
   NewMonitor exampleParseDuration (defaultConfig\<lparr>Timeout := ''abc''\<rparr>) =
     Inl (InvalidTimeout (LibError ''time: invalid duration''))"
  by (simp add: exampleParseDuration_def defaultConfig_def NewMonitor_def)

subsection \<open>The HTTP probe\<close>

lemma validateJSONAssertions_None:
  "validateJSONAssertions lower get body as = None \<longleftrightarrow>
     (\<forall>a \<in> set as. assertionPasses lower get body a)"
  by (induction as) (auto simp: assertionPasses_def Let_def)

lemma validateJSONAssertions_first:
  assumes "\<forall>b \<in> set before. assertionPasses lower get body b"
    and "\<not> assertionPasses lower get body a"
  shows "validateJSONAssertions lower get body (before @ a # after) =
    Some (assertionError get body a)"
  using assms
  by (induction before) (auto simp: assertionPasses_def assertionError_def Let_def)

lemma HTTPChecker_Check_completed:
  assumes "completed net code body"
  shows "HTTPChecker_Check net service =
    (if code \<noteq> (if ExpectedStatus service = 0 then 200 else ExpectedStatus service)
     then (newResult net service)\<lparr>ResponseTime := timeSince net, StatusCode := code,
            Status := StatusUnhealthy,
            Message := ''Expected '' @
              fmt_d (if ExpectedStatus service = 0 then 200 else ExpectedStatus service) @
              '', got '' @ fmt_d code\<rparr>
     else case validateJSONAssertions (toLower net) (gjsonGet net) body
                 (JSONAssertions service) of
            Some err \<Rightarrow>
              (newResult net service)\<lparr>ResponseTime := timeSince net, StatusCode := code,
                Status := StatusUnhealthy, Error := Some err\<rparr>
          | None \<Rightarrow>
              (newResult net service)\<lparr>ResponseTime := timeSince net, StatusCode := code,
                Status := StatusHealthy, Message := ''HTTP '' @ fmt_d code\<rparr>)"
  using assms
  by (cases "JSONAssertions service")
    (simp_all add: HTTPChecker_Check_def completed_def expectedStatusOf_def Let_def)

text \<open>
  Claim C6. Let the request complete with status code \<open>code\<close> and body \<open>body\<close>, and let
  \<open>expected\<close> be \<open>ExpectedStatus\<close>, or 200 when \<open>ExpectedStatus\<close> is 0. The result is
  healthy exactly when \<open>code\<close> is \<open>expected\<close> and every assertion passes. When \<open>code\<close>
  differs from \<open>expected\<close>, the result is unhealthy with the message
  \<open>Expected <expected>, got <actual>\<close>, and it is the same whatever the assertions,
  \<open>gjson.Get\<close> and \<open>strings.ToLower\<close> are: no assertion is evaluated. When \<open>code\<close> is
  \<open>expected\<close> and an assertion fails after assertions that all pass, the result is
  unhealthy with the error of that assertion: \<open>JSONPathNotFound\<close> with its path when
  the path is missing, \<open>JSONAssertionFailed\<close> with its path, operator, expected and
  actual value when the comparison is false.
\<close>

theorem HTTPChecker_Check_spec:
  assumes "completed net code body"
    and "expected = (if ExpectedStatus service = 0 then 200 else ExpectedStatus service)"
  shows "(Status (HTTPChecker_Check net service) = StatusHealthy \<longleftrightarrow>
        code = expected \<and>
        (\<forall>a \<in> set (JSONAssertions service).
           assertionPasses (toLower net) (gjsonGet net) body a)) \<and>
     (code \<noteq> expected \<longrightarrow>
        Status (HTTPChecker_Check net service) = StatusUnhealthy \<and>
        Message (HTTPChecker_Check net service) =
          ''Expected '' @ fmt_d expected @ '', got '' @ fmt_d code \<and>
        (\<forall>lower get as.
           HTTPChecker_Check (net\<lparr>gjsonGet := get, toLower := lower\<rparr>)
             (service\<lparr>JSONAssertions := as\<rparr>) =
           HTTPChecker_Check net service)) \<and>
     (code = expected \<longrightarrow>
        (\<forall>before a after.
           JSONAssertions service = before @ a # after \<and>
           (\<forall>b \<in> set before. assertionPasses (toLower net) (gjsonGet net) body b) \<and>
           \<not> assertionPasses (toLower net) (gjsonGet net) body a \<longrightarrow>
           Status (HTTPChecker_Check net service) = StatusUnhealthy \<and>
           (\<not> Exists (gjsonGet net body (Path a)) \<longrightarrow>
              Error (HTTPChecker_Check net service) = Some (JSONPathNotFound (Path a))) \<and>
           (Exists (gjsonGet net body (Path a)) \<longrightarrow>
              Error (HTTPChecker_Check net service) =
                Some (JSONAssertionFailed (Path a) (Operator a) (Value a)
                  (gjsonGet net body (Path a))))))"
proof (intro conjI impI allI)
  note check = HTTPChecker_Check_completed [OF assms(1), of service, folded assms(2)]
  show "Status (HTTPChecker_Check net service) = StatusHealthy \<longleftrightarrow>
        code = expected \<and>
        (\<forall>a \<in> set (JSONAssertions service).
           assertionPasses (toLower net) (gjsonGet net) body a)"
    using validateJSONAssertions_None [of "toLower net" "gjsonGet net" body
        "JSONAssertions service"]
    by (auto simp: check Status_defs split: option.splits)
  {
    assume "code \<noteq> expected"
    then show "Status (HTTPChecker_Check net service) = StatusUnhealthy"
      and "Message (HTTPChecker_Check net service) =
        ''Expected '' @ fmt_d expected @ '', got '' @ fmt_d code"
      by (simp_all add: check)
  }
  {
    fix lower get as
    assume differs: "code \<noteq> expected"
    from assms(1) have "completed (net\<lparr>gjsonGet := get, toLower := lower\<rparr>) code body"
      by (simp add: completed_def)
    moreover have "(if ExpectedStatus (service\<lparr>JSONAssertions := as\<rparr>) = 0 then 200
        else ExpectedStatus (service\<lparr>JSONAssertions := as\<rparr>)) = expected"
      by (simp add: assms(2))
    ultimately have other: "HTTPChecker_Check (net\<lparr>gjsonGet := get, toLower := lower\<rparr>)
        (service\<lparr>JSONAssertions := as\<rparr>) =
        (newResult (net\<lparr>gjsonGet := get, toLower := lower\<rparr>)
           (service\<lparr>JSONAssertions := as\<rparr>))\<lparr>
          ResponseTime := timeSince (net\<lparr>gjsonGet := get, toLower := lower\<rparr>),
          StatusCode := code, Status := StatusUnhealthy,
          Message := ''Expected '' @ fmt_d expected @ '', got '' @ fmt_d code\<rparr>"
      using differs
      by (simp only: HTTPChecker_Check_completed if_True simp_thms)
    have fresh: "newResult (net\<lparr>gjsonGet := get, toLower := lower\<rparr>)
        (service\<lparr>JSONAssertions := as\<rparr>) = newResult net service"
      by (simp add: newResult_def)
    from differs
    show "HTTPChecker_Check (net\<lparr>gjsonGet := get, toLower := lower\<rparr>)
        (service\<lparr>JSONAssertions := as\<rparr>) = HTTPChecker_Check net service"
      by (simp add: other check fresh)
  }
  {
    fix before a after
    assume same: "code = expected"
      and first: "JSONAssertions service = before @ a # after \<and>
        (\<forall>b \<in> set before. assertionPasses (toLower net) (gjsonGet net) body b) \<and>
        \<not> assertionPasses (toLower net) (gjsonGet net) body a"
    then have failed:
      "validateJSONAssertions (toLower net) (gjsonGet net) body (JSONAssertions service) =
        Some (assertionError (gjsonGet net) body a)"
      by (simp add: validateJSONAssertions_first)
    from same failed show "Status (HTTPChecker_Check net service) = StatusUnhealthy"
      by (simp add: check)
    from same failed
    have error: "Error (HTTPChecker_Check net service) =
        Some (assertionError (gjsonGet net) body a)"
      by (simp add: check)
    {
      assume "\<not> Exists (gjsonGet net body (Path a))"
      with error show "Error (HTTPChecker_Check net service) = Some (JSONPathNotFound (Path a))"
        by (simp add: assertionError_def)
    }
    {
      assume "Exists (gjsonGet net body (Path a))"
      with error show "Error (HTTPChecker_Check net service) =
          Some (JSONAssertionFailed (Path a) (Operator a) (Value a)
            (gjsonGet net body (Path a)))"
        by (simp add: assertionError_def)
    }
  }
qed

lemma healthNet_completed: "completed healthNet 200 healthBody"
  by (simp add: completed_def healthNet_def quietNet_def)

lemma notFoundNet_completed: "completed notFoundNet 404 []"
  by (simp add: completed_def notFoundNet_def quietNet_def)

lemma quietNet_completed: "completed quietNet 200 []"
  by (simp add: completed_def quietNet_def)

lemmas health_defs = HTTPChecker_Check_def healthNet_def notFoundNet_def quietNet_def
  healthGet_def healthBody_def statusLeaf_def uptimeLeaf_def noLeaf_def exampleService_def
  newResult_def Status_defs expectedStatusOf_def fmt_d_def digit_def statusIs_def
  uptimeAbove_def versionIs_def compareValue_def asciiToLower_def asciiLowerChar_def
  f64_gt_def completed_def

theorem HTTPChecker_Check_spec_witness:
  "completed healthNet 200 healthBody \<and>
   ExpectedStatus (exampleService\<lparr>ExpectedStatus := 0\<rparr>) = 0 \<and>
   Status (HTTPChecker_Check healthNet
     (exampleService\<lparr>ExpectedStatus := 0,
        JSONAssertions := [statusIs ''ok'', uptimeAbove 0]\<rparr>)) = StatusHealthy \<and>
   completed notFoundNet 404 [] \<and>
   Status (HTTPChecker_Check notFoundNet (exampleService\<lparr>ExpectedStatus := 0\<rparr>)) =
     StatusUnhealthy \<and>
   Message (HTTPChecker_Check notFoundNet (exampleService\<lparr>ExpectedStatus := 0\<rparr>)) =
     ''Expected 200, got 404'' \<and>
   completed quietNet 200 [] \<and>
   Message (HTTPChecker_Check quietNet (exampleService\<lparr>ExpectedStatus := 201\<rparr>)) =
     ''Expected 201, got 200'' \<and>
   Error (HTTPChecker_Check healthNet
     (exampleService\<lparr>JSONAssertions := [statusIs ''ok'', versionIs ''1.0.5'', uptimeAbove 0]\<rparr>)) =
     Some (JSONPathNotFound ''version'') \<and>
   Error (HTTPChecker_Check healthNet
     (exampleService\<lparr>JSONAssertions := [uptimeAbove 0, statusIs ''degraded'']\<rparr>)) =
     Some (JSONAssertionFailed ''status'' ''=='' (VString ''degraded'') statusLeaf)"
  using HTTPChecker_Check_spec [OF healthNet_completed,
      of 200 "exampleService\<lparr>ExpectedStatus := 0,
        JSONAssertions := [statusIs ''ok'', uptimeAbove 0]\<rparr>"]
    HTTPChecker_Check_spec [OF notFoundNet_completed,
      of 200 "exampleService\<lparr>ExpectedStatus := 0\<rparr>"]
    HTTPChecker_Check_spec [OF quietNet_completed,
      of 201 "exampleService\<lparr>ExpectedStatus := 201\<rparr>"]
    HTTPChecker_Check_spec [OF healthNet_completed,
      of 200 "exampleService\<lparr>JSONAssertions :=
        [statusIs ''ok'', versionIs ''1.0.5'', uptimeAbove 0]\<rparr>"]
    HTTPChecker_Check_spec [OF healthNet_completed,
      of 200 "exampleService\<lparr>JSONAssertions := [uptimeAbove 0, statusIs ''degraded'']\<rparr>"]
  by (simp add: health_defs)

subsection \<open>The comparison of JSON values\<close>









subsection \<open>The TLS probe\<close>

lemma pow2_step: "(2::rat) powi (e + 1) = 2 powi e * 2"
  by (simp add: power_int_add_1)

lemma pow2_pos: "0 < (2::rat) powi e"
  by simp

lemma log2up_bounds: "1 \<le> x \<Longrightarrow> 2 powi log2up x \<le> x \<and> x < 2 powi (log2up x + 1)"
proof (induction x rule: log2up.induct)
  case (1 x)
  show ?case
  proof (cases "x < 2")
    case True
    then have "log2up x = 0" by (subst log2up.simps) simp
    with True "1.prems" show ?thesis by simp
  next
    case False
    then have e: "log2up x = log2up (x / 2) + 1" by (subst log2up.simps) simp
    from False have "1 \<le> x / 2" by simp
    from "1.IH" [OF False this]
    have "2 powi log2up (x / 2) \<le> x / 2" "x / 2 < 2 powi (log2up (x / 2) + 1)" by simp_all
    then show ?thesis
      unfolding e pow2_step [of "log2up (x / 2) + 1"] pow2_step [of "log2up (x / 2)"]
      by simp
  qed
qed

lemma log2down_bounds:
  "0 < x \<Longrightarrow> x < 2 \<Longrightarrow> 2 powi log2down x \<le> x \<and> x < 2 powi (log2down x + 1)"
proof (induction x rule: log2down.induct)
  case (1 x)
  show ?case
  proof (cases "1 \<le> x")
    case True
    then have "log2down x = 0" by (subst log2down.simps) simp
    with True "1.prems" show ?thesis by simp
  next
    case False
    with "1.prems" have rec: "\<not> (x \<le> 0 \<or> 1 \<le> x)" by simp
    then have e: "log2down x = log2down (2 * x) - 1" by (subst log2down.simps) simp
    from False "1.prems" have "0 < 2 * x" "2 * x < 2" by simp_all
    from "1.IH" [OF rec this]
    have "2 powi log2down (2 * x) \<le> 2 * x" "2 * x < 2 powi (log2down (2 * x) + 1)"
      by simp_all
    moreover have "(2::rat) powi log2down (2 * x) = 2 powi (log2down (2 * x) - 1) * 2"
      using pow2_step [of "log2down (2 * x) - 1"] by simp
    moreover have "(2::rat) powi (log2down (2 * x) + 1) = 2 powi log2down (2 * x) * 2"
      by (rule pow2_step)
    ultimately show ?thesis
      unfolding e by simp
  qed
qed

lemma ilog2_bounds: "0 < x \<Longrightarrow> 2 powi ilog2 x \<le> x \<and> x < 2 powi (ilog2 x + 1)"
  using log2up_bounds [of x] log2down_bounds [of x] by (simp add: ilog2_def)

lemma pow2_mono: "a \<le> b \<Longrightarrow> (2::rat) powi a \<le> 2 powi b"
  by (rule power_int_increasing) simp_all

lemma pow2_less_imp: "(2::rat) powi a < 2 powi b \<Longrightarrow> a < b"
  using pow2_mono [of b a] by (cases "a < b") simp_all

lemma ilog2_mono:
  assumes "0 < x" and "x \<le> y"
  shows "ilog2 x \<le> ilog2 y"
proof -
  from assms have "0 < y" by simp
  from ilog2_bounds [OF assms(1)] ilog2_bounds [OF this] assms(2)
  have "(2::rat) powi ilog2 x < 2 powi (ilog2 y + 1)" by simp
  then have "ilog2 x < ilog2 y + 1" by (rule pow2_less_imp)
  then show ?thesis by simp
qed

lemma roundHalfEven_of_int: "roundHalfEven (of_int n) = n"
  by (simp add: roundHalfEven_def)

lemma roundHalfEven_floor: "\<lfloor>q\<rfloor> \<le> roundHalfEven q" "roundHalfEven q \<le> \<lfloor>q\<rfloor> + 1"
  by (simp_all add: roundHalfEven_def Let_def)

lemma roundHalfEven_mono:
  assumes "p \<le> q"
  shows "roundHalfEven p \<le> roundHalfEven q"
proof (cases "\<lfloor>p\<rfloor> = \<lfloor>q\<rfloor>")
  case True
  with assms have "p - of_int \<lfloor>p\<rfloor> \<le> q - of_int \<lfloor>q\<rfloor>" by simp
  with True show ?thesis
    by (auto simp: roundHalfEven_def Let_def)
next
  case False
  with assms have "\<lfloor>p\<rfloor> < \<lfloor>q\<rfloor>"
    using floor_mono [OF assms] by simp
  with roundHalfEven_floor(2) [of p] roundHalfEven_floor(1) [of q] show ?thesis by simp
qed

text \<open>
  On the positive numbers \<open>round64\<close> is monotone, and it leaves the integers below
  \<open>2 ^ 53\<close> as they are.
\<close>

lemma round64_pos:
  assumes "0 < x"
  shows "2 powi ilog2 x \<le> round64 x" and "round64 x \<le> 2 powi (ilog2 x + 1)"
proof -
  define u :: rat where "u = 2 powi (ilog2 x - 52)"
  have u: "0 < u" by (simp add: u_def)
  have low: "2 powi ilog2 x = 2 ^ 52 * u" and high: "2 powi (ilog2 x + 1) = 2 ^ 53 * u"
    by (simp_all add: u_def power_int_diff power_int_add)
  from assms have r: "round64 x = of_int (roundHalfEven (x / u)) * u"
    by (simp add: round64_def u_def Let_def)
  from ilog2_bounds [OF assms] have "2 ^ 52 * u \<le> x" "x < 2 ^ 53 * u"
    by (simp_all add: low high)
  with u have below: "of_int (2 ^ 52) \<le> x / u" and above: "x / u \<le> of_int (2 ^ 53)"
    by (simp_all add: pos_le_divide_eq pos_divide_le_eq)
  from roundHalfEven_mono [OF below] roundHalfEven_mono [OF above]
  have "2 ^ 52 \<le> roundHalfEven (x / u)" "roundHalfEven (x / u) \<le> 2 ^ 53"
    by (simp_all only: roundHalfEven_of_int)
  then have "(of_int (2 ^ 52) :: rat) \<le> of_int (roundHalfEven (x / u))"
    "(of_int (roundHalfEven (x / u)) :: rat) \<le> of_int (2 ^ 53)"
    by (simp_all only: of_int_le_iff)
  then have "(2 ^ 52 :: rat) \<le> of_int (roundHalfEven (x / u))"
    "(of_int (roundHalfEven (x / u)) :: rat) \<le> 2 ^ 53"
    by simp_all
  with u show "2 powi ilog2 x \<le> round64 x" and "round64 x \<le> 2 powi (ilog2 x + 1)"
    by (simp_all add: r low high)
qed

lemma round64_mono_pos:
  assumes "0 < x" and "x \<le> y"
  shows "round64 x \<le> round64 y"
proof -
  from assms have y: "0 < y" by simp
  show ?thesis
  proof (cases "ilog2 x = ilog2 y")
    case True
    define u :: rat where "u = 2 powi (ilog2 y - 52)"
    have u: "0 < u" by (simp add: u_def)
    from assms(2) u have "x / u \<le> y / u" by (simp add: divide_right_mono)
    then have "roundHalfEven (x / u) \<le> roundHalfEven (y / u)" by (rule roundHalfEven_mono)
    then have "(of_int (roundHalfEven (x / u)) :: rat) \<le> of_int (roundHalfEven (y / u))"
      by simp
    with u have "of_int (roundHalfEven (x / u)) * u \<le> of_int (roundHalfEven (y / u)) * u"
      by (simp add: mult_right_mono)
    with assms(1) y True show ?thesis
      by (simp add: round64_def u_def Let_def)
  next
    case False
    with ilog2_mono [OF assms] have "ilog2 x + 1 \<le> ilog2 y" by simp
    then have "(2::rat) powi (ilog2 x + 1) \<le> 2 powi ilog2 y" by (rule pow2_mono)
    with round64_pos(2) [OF assms(1)] round64_pos(1) [OF y] show ?thesis by simp
  qed
qed

lemma round64_mono:
  assumes "0 \<le> x" and "x \<le> y"
  shows "round64 x \<le> round64 y"
proof (cases "x = 0")
  case True
  show ?thesis
  proof (cases "y = 0")
    case True
    with \<open>x = 0\<close> show ?thesis by simp
  next
    case False
    with assms True have "0 < y" by simp
    from pow2_pos round64_pos(1) [OF this] have "0 < round64 y"
      by (rule less_le_trans)
    with True show ?thesis by (simp add: round64_def)
  qed
next
  case False
  with assms have "0 < x" by simp
  then show ?thesis using assms(2) by (rule round64_mono_pos)
qed

lemma round64_of_int:
  assumes "0 \<le> n" and "n < 2 ^ 53"
  shows "round64 (of_int n) = of_int n"
proof (cases "n = 0")
  case True
  then show ?thesis by (simp add: round64_def)
next
  case False
  with assms have pos: "0 < (of_int n :: rat)" by simp
  define e where "e = ilog2 (of_int n)"
  from ilog2_bounds [OF pos] assms(2)
  have "(2::rat) powi e \<le> of_int n" and "(of_int n :: rat) < 2 powi 53"
    by (simp_all add: e_def)
  then have "(2::rat) powi e < 2 powi 53" by simp
  then have "e < 53" by (rule pow2_less_imp)
  define k where "k = nat (52 - e)"
  from \<open>e < 53\<close> have k: "52 - e = int k" by (simp add: k_def)
  from k have "e - 52 = - int k" by linarith
  then have "(2::rat) powi (e - 52) = 2 powi (- int k)" by (simp only:)
  also have "\<dots> = 1 / 2 ^ k" by (simp add: power_int_minus_divide)
  finally have u: "(2::rat) powi (e - 52) = 1 / 2 ^ k" .
  have "of_int n / (1 / 2 ^ k) = (of_int (n * 2 ^ k) :: rat)" by simp
  then have "roundHalfEven (of_int n / (1 / 2 ^ k)) = n * 2 ^ k"
    by (simp only: roundHalfEven_of_int)
  with pos show ?thesis
    by (simp add: round64_def Let_def e_def [symmetric] u)
qed


lemma round64_one: "round64 1 = 1"
  using round64_of_int [of 1] by simp

lemma sdiv_nonneg: "0 \<le> a \<Longrightarrow> 0 < b \<Longrightarrow> a sdiv b = a div b" for a b :: int
  by (simp add: signed_divide_int_def sgn_if)

lemma smod_nonneg: "0 \<le> a \<Longrightarrow> 0 < b \<Longrightarrow> a smod b = a mod b" for a b :: int
  by (simp add: signed_modulo_int_def sgn_if)

lemma Hour_value: "Hour = 3600000000000"
  by (simp add: Hour_def Second_def)

text \<open>
  For a remaining duration that is not negative, the days until expiry are the whole
  remaining hours divided by 24, or one more.
\<close>

lemma expiryDaysOf_bracket:
  assumes "0 \<le> d" and "d < 2 ^ 63"
  shows "(d sdiv Hour) sdiv 24 \<le> expiryDaysOf d \<and> expiryDaysOf d \<le> (d sdiv Hour) sdiv 24 + 1"
proof -
  define hour where "hour = d div Hour"
  define nsec where "nsec = d mod Hour"
  define D where "D = hour div 24"
  have hour_sdiv: "d sdiv Hour = hour" and nsec_smod: "d smod Hour = nsec"
    using assms(1) by (simp_all add: hour_def nsec_def sdiv_nonneg smod_nonneg Hour_value)
  have hour0: "0 \<le> hour"
    using assms(1) by (simp add: hour_def Hour_value pos_imp_zdiv_nonneg_iff)
  from assms(2) have "d \<le> 9223372036854775808" by simp
  then have "d div 3600000000000 \<le> 9223372036854775808 div 3600000000000"
    by (rule zdiv_mono1) simp
  then have hour1: "hour + 1 < 2 ^ 53"
    by (simp add: hour_def Hour_value)
  note hour = hour0 hour1
  have nsec0: "0 \<le> nsec" and nsec2: "nsec < 3600000000000"
    by (simp_all add: nsec_def Hour_value)
  then have nsec1: "nsec < 2 ^ 53" by simp
  note nsec = nsec0 nsec1 nsec2
  have D0: "0 \<le> D"
    using hour0 by (simp add: D_def pos_imp_zdiv_nonneg_iff)
  have split: "hour = 24 * D + hour mod 24"
    by (simp add: D_def)
  have "0 \<le> hour mod 24" "hour mod 24 < 24" by simp_all
  with split have D2: "24 * D \<le> hour" and D3: "hour < 24 * D + 24" by linarith+
  from D2 D0 have D1: "D \<le> hour" by linarith
  note D = D0 D1 D2 D3
  define b where "b = round64 (round64 (of_int nsec) / (60 * 60 * 1000000000))"
  have "round64 (of_int nsec) = of_int nsec"
    using nsec by (simp add: round64_of_int)
  then have b_eq: "b = round64 (of_int nsec / 3600000000000)"
    by (simp add: b_def)
  have "round64 0 \<le> b" unfolding b_eq
    using nsec(1) by (intro round64_mono) simp_all
  then have b0: "0 \<le> b" by (simp add: round64_def)
  have "b \<le> round64 1" unfolding b_eq
    using nsec by (intro round64_mono) simp_all
  then have b1: "b \<le> 1" by (simp only: round64_one)
  define h where "h = round64 (round64 (of_int hour) + b)"
  have h_eq: "h = round64 (of_int hour + b)"
    using hour by (simp add: h_def round64_of_int)
  have "round64 (of_int hour) \<le> h" unfolding h_eq
    using hour(1) b0 by (intro round64_mono) simp_all
  then have h0: "of_int hour \<le> h"
    using hour by (simp add: round64_of_int)
  have "h \<le> round64 (of_int (hour + 1))" unfolding h_eq
    using hour(1) b0 b1 by (intro round64_mono) simp_all
  moreover have "round64 (of_int (hour + 1)) = of_int (hour + 1)"
    using hour by (intro round64_of_int) simp_all
  ultimately have "h \<le> of_int (hour + 1)" by (simp only:)
  then have h1: "h \<le> of_int hour + 1" by simp
  define q where "q = round64 (h / 24)"
  have "of_int D \<le> (of_int hour :: rat) / 24"
  proof -
    from D(3) have "(of_int (24 * D) :: rat) \<le> of_int hour" by (simp only: of_int_le_iff)
    then show ?thesis by (simp add: le_divide_eq)
  qed
  with h0 have low: "of_int D \<le> h / 24" by simp
  have "round64 (of_int D) \<le> q" unfolding q_def
    using D(1) low by (intro round64_mono) simp_all
  moreover have "D < 2 ^ 53" using D(2) hour(2) by simp
  ultimately have q0: "of_int D \<le> q"
    using D(1) by (simp add: round64_of_int)
  have "(of_int hour + 1 :: rat) / 24 \<le> of_int (D + 1)"
  proof -
    from D(4) have "hour + 1 \<le> 24 * (D + 1)" by simp
    then have "(of_int (hour + 1) :: rat) \<le> of_int (24 * (D + 1))" by (simp only: of_int_le_iff)
    then show ?thesis by (simp add: divide_le_eq)
  qed
  with h1 have high: "h / 24 \<le> of_int (D + 1)" by simp
  have "0 \<le> h / 24" using low D(1) by simp
  then have "q \<le> round64 (of_int (D + 1))" unfolding q_def
    using high by (intro round64_mono)
  moreover have "round64 (of_int (D + 1)) = of_int (D + 1)"
    using D(1,2) hour(2) by (intro round64_of_int) simp_all
  ultimately have q1: "q \<le> of_int (D + 1)" by (simp only:)
  have "0 \<le> q" using q0 D(1) by simp
  then have "toInt q = \<lfloor>q\<rfloor>" by (simp add: toInt_def)
  moreover from q0 have "D \<le> \<lfloor>q\<rfloor>" by (simp add: le_floor_iff)
  moreover from q1 have "\<lfloor>q\<rfloor> \<le> D + 1" using floor_mono [OF q1] by simp
  moreover have "expiryDaysOf d = toInt q"
    by (simp add: expiryDaysOf_def Hours_def q_def h_def b_def hour_sdiv nsec_smod)
  moreover have "(d sdiv Hour) sdiv 24 = D"
    using hour(1) by (simp add: hour_sdiv D_def sdiv_nonneg)
  ultimately show ?thesis by simp
qed

lemma Until_range: "- (2 ^ 63) \<le> Until now t \<and> Until now t < 2 ^ 63"
  by (simp add: Until_def Sub_def Let_def maxDuration_def minDuration_def)

lemma Until_clamp:
  "Until now t = max (- 9223372036854775808) (min 9223372036854775807 (t - now))"
  by (simp add: Until_def Sub_def Let_def maxDuration_def minDuration_def max_def min_def)

lemma expiryDaysOf_explicit:
  "expiryDaysOf d =
     toInt (round64 (round64 (round64 (of_int (d sdiv 3600000000000)) +
       round64 (round64 (of_int (d smod 3600000000000)) / 3600000000000)) / 24))"
  by (simp add: expiryDaysOf_def Hours_def Hour_value)

text \<open>
  Claim C8, as amended. A handshake that fails gives an unhealthy result with the message
  \<open>TLS connection failed\<close>. With a leaf certificate: one whose \<open>NotAfter\<close> is past
  gives an unhealthy result whose error carries \<open>NotAfter\<close>; one that is still valid
  with fewer days left than the warning days (30 when \<open>TLSWarningDays\<close> is 0) gives an
  unhealthy result; any other gives a healthy result. The days left are computed in
  \<open>float64\<close>: the hours of the remaining duration, divided by 24 and truncated. When
  the remaining duration is not negative, they are the remaining whole hours divided by
  24, truncating, or one more.
\<close>

theorem TLSChecker_Check_spec:
  "(dialTLS net = Inl err \<longrightarrow>
      Status (TLSChecker_Check net service) = StatusUnhealthy \<and>
      Message (TLSChecker_Check net service) = ''TLS connection failed'' \<and>
      Error (TLSChecker_Check net service) = Some (TLSConnectionFailed err)) \<and>
   (dialTLS net = Inr (notAfter # certs) \<and>
    remaining =
      max (- 9223372036854775808) (min 9223372036854775807 (notAfter - timeUntilNow net)) \<and>
    days =
      toInt (round64 (round64 (round64 (of_int (remaining sdiv 3600000000000)) +
        round64 (round64 (of_int (remaining smod 3600000000000)) / 3600000000000)) / 24)) \<and>
    warningDays = (if TLSWarningDays service = 0 then 30 else TLSWarningDays service) \<longrightarrow>
      (timeAfterNow net > notAfter \<longrightarrow>
         Status (TLSChecker_Check net service) = StatusUnhealthy \<and>
         Error (TLSChecker_Check net service) = Some (CertificateExpired notAfter)) \<and>
      (\<not> timeAfterNow net > notAfter \<and> days < warningDays \<longrightarrow>
         Status (TLSChecker_Check net service) = StatusUnhealthy \<and>
         Error (TLSChecker_Check net service) = Some (CertificateExpiring days warningDays)) \<and>
      (\<not> timeAfterNow net > notAfter \<and> \<not> days < warningDays \<longrightarrow>
         Status (TLSChecker_Check net service) = StatusHealthy \<and>
         Error (TLSChecker_Check net service) = None) \<and>
      (0 \<le> remaining \<longrightarrow>
         (remaining sdiv 3600000000000) sdiv 24 \<le> days \<and>
         days \<le> (remaining sdiv 3600000000000) sdiv 24 + 1))"
proof (intro conjI impI)
  assume "dialTLS net = Inl err"
  then show "Status (TLSChecker_Check net service) = StatusUnhealthy"
    and "Message (TLSChecker_Check net service) = ''TLS connection failed''"
    and "Error (TLSChecker_Check net service) = Some (TLSConnectionFailed err)"
    by (simp_all add: TLSChecker_Check_def newResult_def)
next
  assume "dialTLS net = Inr (notAfter # certs) \<and>
    remaining =
      max (- 9223372036854775808) (min 9223372036854775807 (notAfter - timeUntilNow net)) \<and>
    days =
      toInt (round64 (round64 (round64 (of_int (remaining sdiv 3600000000000)) +
        round64 (round64 (of_int (remaining smod 3600000000000)) / 3600000000000)) / 24)) \<and>
    warningDays = (if TLSWarningDays service = 0 then 30 else TLSWarningDays service)"
  then have cert: "dialTLS net = Inr (notAfter # certs)"
    and remaining: "remaining = Until (timeUntilNow net) notAfter"
    and days: "days = expiryDaysOf remaining"
    and warning: "warningDays = warningDaysOf service"
    by (simp_all only: Until_clamp expiryDaysOf_explicit warningDaysOf_def)
  note check = TLSChecker_Check_def newResult_def Let_def cert remaining [symmetric]
    days [symmetric] warning [symmetric]
  {
    assume "timeAfterNow net > notAfter"
    then show "Status (TLSChecker_Check net service) = StatusUnhealthy"
      and "Error (TLSChecker_Check net service) = Some (CertificateExpired notAfter)"
      by (simp_all add: check)
  }
  {
    assume "\<not> timeAfterNow net > notAfter \<and> days < warningDays"
    then show "Status (TLSChecker_Check net service) = StatusUnhealthy"
      and "Error (TLSChecker_Check net service) = Some (CertificateExpiring days warningDays)"
      by (simp_all add: check)
  }
  {
    assume "\<not> timeAfterNow net > notAfter \<and> \<not> days < warningDays"
    then show "Status (TLSChecker_Check net service) = StatusHealthy"
      and "Error (TLSChecker_Check net service) = None"
      by (simp_all add: check)
  }
  {
    assume "0 \<le> remaining"
    moreover have "remaining < 2 ^ 63"
      using Until_range [of "timeUntilNow net" notAfter] by (simp add: remaining)
    ultimately have "(remaining sdiv Hour) sdiv 24 \<le> expiryDaysOf remaining \<and>
        expiryDaysOf remaining \<le> (remaining sdiv Hour) sdiv 24 + 1"
      by (rule expiryDaysOf_bracket)
    then show "(remaining sdiv 3600000000000) sdiv 24 \<le> days"
      and "days \<le> (remaining sdiv 3600000000000) sdiv 24 + 1"
      by (simp_all add: days Hour_value)
  }
qed

theorem TLSChecker_Check_spec_witness:
  "dialTLS handshakeFailedNet = Inl (LibError ''remote error: tls: handshake failure'') \<and>
   Status (TLSChecker_Check handshakeFailedNet exampleService) = StatusUnhealthy \<and>
   Message (TLSChecker_Check handshakeFailedNet exampleService) = ''TLS connection failed'' \<and>
   dialTLS (certNet 0) = Inr [0] \<and> timeAfterNow (certNet 0) > 0 \<and>
   Status (TLSChecker_Check (certNet 0) exampleService) = StatusUnhealthy \<and>
   Error (TLSChecker_Check (certNet 0) exampleService) = Some (CertificateExpired 0) \<and>
   dialTLS (certNet 882000000000000) = Inr [882000000000000] \<and>
   Status (TLSChecker_Check (certNet 882000000000000) exampleService) = StatusUnhealthy \<and>
   Error (TLSChecker_Check (certNet 882000000000000) exampleService) =
     Some (CertificateExpiring 10 30) \<and>
   dialTLS (certNet 7776000000000000) = Inr [7776000000000000] \<and>
   Status (TLSChecker_Check (certNet 7776000000000000) exampleService) = StatusHealthy \<and>
   Error (TLSChecker_Check (certNet 7776000000000000) exampleService) = None \<and>
   (7776000000000000 sdiv 3600000000000) sdiv 24 = (90 :: int)"
proof -
  have failed: "dialTLS handshakeFailedNet =
      Inl (LibError ''remote error: tls: handshake failure'')"
    by (simp add: handshakeFailedNet_def quietNet_def)
  from TLSChecker_Check_spec [where net = handshakeFailedNet
      and err = "LibError ''remote error: tls: handshake failure''"
      and service = exampleService] failed
  have c1: "Status (TLSChecker_Check handshakeFailedNet exampleService) = StatusUnhealthy \<and>
      Message (TLSChecker_Check handshakeFailedNet exampleService) = ''TLS connection failed''"
    by blast
  have expired: "dialTLS (certNet 0) = Inr (0 # []) \<and>
      (0::int) = max (- 9223372036854775808)
        (min 9223372036854775807 (0 - timeUntilNow (certNet 0))) \<and>
      (0::int) = toInt (round64 (round64 (round64 (of_int (0 sdiv 3600000000000)) +
        round64 (round64 (of_int (0 smod 3600000000000)) / 3600000000000)) / 24)) \<and>
      (30::int) = (if TLSWarningDays exampleService = 0 then 30
        else TLSWarningDays exampleService)"
    by code_simp
  have past: "timeAfterNow (certNet 0) > 0"
    by (simp add: certNet_def quietNet_def)
  from TLSChecker_Check_spec [where net = "certNet 0" and notAfter = 0 and certs = "[]"
      and remaining = 0 and days = 0 and warningDays = 30 and service = exampleService]
    expired past
  have c2: "Status (TLSChecker_Check (certNet 0) exampleService) = StatusUnhealthy \<and>
      Error (TLSChecker_Check (certNet 0) exampleService) = Some (CertificateExpired 0)"
    by blast
  have expiring: "dialTLS (certNet 882000000000000) = Inr (882000000000000 # []) \<and>
      (882000000000000::int) = max (- 9223372036854775808)
        (min 9223372036854775807 (882000000000000 - timeUntilNow (certNet 882000000000000))) \<and>
      (10::int) = toInt (round64 (round64 (round64 (of_int (882000000000000 sdiv 3600000000000)) +
        round64 (round64 (of_int (882000000000000 smod 3600000000000)) / 3600000000000)) / 24)) \<and>
      (30::int) = (if TLSWarningDays exampleService = 0 then 30
        else TLSWarningDays exampleService)"
    by code_simp
  have soon: "\<not> timeAfterNow (certNet 882000000000000) > 882000000000000 \<and> (10::int) < 30"
    by (simp add: certNet_def quietNet_def)
  from TLSChecker_Check_spec [where net = "certNet 882000000000000"
      and notAfter = 882000000000000 and certs = "[]" and remaining = 882000000000000
      and days = 10 and warningDays = 30 and service = exampleService]
    expiring soon
  have c3: "Status (TLSChecker_Check (certNet 882000000000000) exampleService) =
        StatusUnhealthy \<and>
      Error (TLSChecker_Check (certNet 882000000000000) exampleService) =
        Some (CertificateExpiring 10 30)"
    by blast
  have valid: "dialTLS (certNet 7776000000000000) = Inr (7776000000000000 # []) \<and>
      (7776000000000000::int) = max (- 9223372036854775808)
        (min 9223372036854775807 (7776000000000000 - timeUntilNow (certNet 7776000000000000))) \<and>
      (90::int) = toInt (round64 (round64 (round64 (of_int (7776000000000000 sdiv 3600000000000)) +
        round64 (round64 (of_int (7776000000000000 smod 3600000000000)) / 3600000000000)) / 24)) \<and>
      (30::int) = (if TLSWarningDays exampleService = 0 then 30
        else TLSWarningDays exampleService)"
    by code_simp
  have later: "\<not> timeAfterNow (certNet 7776000000000000) > 7776000000000000 \<and>
      \<not> (90::int) < 30"
    by (simp add: certNet_def quietNet_def)
  from TLSChecker_Check_spec [where net = "certNet 7776000000000000"
      and notAfter = 7776000000000000 and certs = "[]" and remaining = 7776000000000000
      and days = 90 and warningDays = 30 and service = exampleService]
    valid later
  have c4: "Status (TLSChecker_Check (certNet 7776000000000000) exampleService) =
        StatusHealthy \<and>
      Error (TLSChecker_Check (certNet 7776000000000000) exampleService) = None"
    by blast
  have whole: "(7776000000000000 sdiv 3600000000000) sdiv 24 = (90 :: int)"
    by code_simp
  from failed c1 expired past c2 expiring c3 valid c4 whole show ?thesis
    by simp
qed

text \<open>
  The claim as it was stated fails: with 365 days less one nanosecond left, the whole
  remaining hours divided by 24 are 364 days, fewer than the 365 warning days, and the
  result is healthy: the \<open>float64\<close> hours are rounded to 8760, which gives 365 days.
\<close>

theorem TLSChecker_Check_spec_counterexample:
  "dialTLS (certNet 31535999999999999) = Inr [31535999999999999] \<and>
   \<not> timeAfterNow (certNet 31535999999999999) > 31535999999999999 \<and>
   Until (timeUntilNow (certNet 31535999999999999)) 31535999999999999 = 31535999999999999 \<and>
   (31535999999999999 sdiv Hour) sdiv 24 = 364 \<and>
   (364 :: int) < (if TLSWarningDays (exampleService\<lparr>TLSWarningDays := 365\<rparr>) = 0 then 30
      else TLSWarningDays (exampleService\<lparr>TLSWarningDays := 365\<rparr>)) \<and>
   Status (TLSChecker_Check (certNet 31535999999999999)
     (exampleService\<lparr>TLSWarningDays := 365\<rparr>)) = StatusHealthy \<and>
   Message (TLSChecker_Check (certNet 31535999999999999)
     (exampleService\<lparr>TLSWarningDays := 365\<rparr>)) = ''Certificate expires in 365 days''"
  by code_simp

end
